theory Spec2Isabelle
  imports Main "HOL-Library.Product_Lexorder"
begin

section \<open>Positions, ranges and text documents\<close>

text \<open>
  A \<open>vscode.Position\<close> is a line and a character, a \<open>vscode.Range\<close> a start and an end
  position. JavaScript numbers are modelled as \<open>int\<close>.
\<close>

record Position =
  line :: int
  character :: int

record Range =
  start :: Position
  end' :: Position

text \<open>
  Positions are ordered by line, then by character. A range is inverted when its end lies
  before its start.
\<close>

definition pos_le :: "Position \<Rightarrow> Position \<Rightarrow> bool" where
  "pos_le p q = (line p < line q \<or> (line p = line q \<and> character p \<le> character q))"

definition inverted :: "Range \<Rightarrow> bool" where
  "inverted r = (\<not> pos_le (start r) (end' r))"

text \<open>
  \<open>TextDocument\<close> is the interface of the library vscode-languageserver-textdocument. The
  code reads the fields below and calls \<open>offsetAt\<close> and \<open>positionAt\<close>; the two methods are
  fields of the record, so a document is an object that carries its own conversions.
\<close>

record TextDocument =
  uri :: string
  languageId :: string
  version :: int
  getText :: string
  offsetAt :: "Position \<Rightarrow> int"
  positionAt :: "int \<Rightarrow> Position"

text \<open>
  A document of one line of \<open>n\<close> characters, as the library answers for a text without line
  breaks: offsets are clamped to \<open>0..n\<close>, every line after the first is the end of the text.
\<close>

definition lineDocument :: "string \<Rightarrow> string \<Rightarrow> TextDocument" where
  "lineDocument u t =
     \<lparr>uri = u, languageId = ''plaintext'', version = 0, getText = t,
      offsetAt = (\<lambda>p. if 1 \<le> line p then int (length t)
                       else if line p < 0 then 0
                       else max (min (character p) (int (length t))) 0),
      positionAt = (\<lambda>k. \<lparr>line = 0, character = max (min k (int (length t))) 0\<rparr>)\<rparr>"

section \<open>Mapping entries and the base source map\<close>

record 'd Mapping =
  sourceRange :: "int \<times> int"
  generatedRange :: "int \<times> int"
  data :: 'd

text \<open>
  The code selects a side of an entry by the property names \<open>'sourceRange'\<close> and
  \<open>'generatedRange'\<close>, and a direction by \<open>'left'\<close> and \<open>'right'\<close>.
\<close>

datatype RangeKey = sourceRangeKey | generatedRangeKey

fun rangeOf :: "RangeKey \<Rightarrow> 'd Mapping \<Rightarrow> int \<times> int" where
  "rangeOf sourceRangeKey m = sourceRange m"
| "rangeOf generatedRangeKey m = generatedRange m"

datatype BaseOffset = left | right

text \<open>
  Modelled from the spec: \<open>SourceMapBase.matchOffset\<close> of the package @volar/source-map,
  which is not among the source files. The spec (4.1) translates an offset that the
  origin-side range of an entry contains, at the given bias, by a linear shift within the
  entry. Without the flag \<open>baseOnRight\<close> the shift is based on the left ends of the two
  ranges, \<open>dest.start + (pos - origin.start)\<close>; with the flag it is based on their right
  ends, \<open>dest.end - (origin.end - pos)\<close>, which is the left-based offset plus the length of
  the destination range minus the length of the origin range: this is the difference that
  \<open>toPositions\<close> takes back under \<open>right\<close>, so that \<open>toGeneratedPosition\<close> gives the linear
  shift of the spec under either bias. The translated offset is returned as it is, with no
  check against the destination range. Containment
  includes both ends of the range: \<open>toRanges\<close> resolves the start of a range with \<open>left\<close>
  and its end with \<open>right\<close> through one entry, the example of section 8 resolves offset 8
  through the entry \<open>[8,9)\<close> with \<open>left\<close> and maps the range \<open>[0,1)\<close> through the entry
  \<open>[0,1)\<close>, and zero-length entries are valid.
\<close>

definition matchOffset :: "int \<Rightarrow> int \<times> int \<Rightarrow> int \<times> int \<Rightarrow> bool \<Rightarrow> int option" where
  "matchOffset startOffset mappedFromRange mappedToRange baseOnRight =
     (if fst mappedFromRange \<le> startOffset \<and> startOffset \<le> snd mappedFromRange
      then Some (if baseOnRight
                 then fst mappedToRange + (startOffset - fst mappedFromRange)
                      + ((snd mappedToRange - fst mappedToRange)
                         - (snd mappedFromRange - fst mappedFromRange))
                 else fst mappedToRange + (startOffset - fst mappedFromRange))
      else None)"

text \<open>
  Modelled from the spec: the scan of the table inside \<open>SourceMapBase.matcing\<close> of the
  package @volar/source-map, which is not among the source files. The spec (4.1) scans the
  table in table order and finds, for every entry whose origin-side range contains the
  offset, the translated offset and the entry.
\<close>

fun matcingScan ::
  "'d Mapping list \<Rightarrow> int \<Rightarrow> RangeKey \<Rightarrow> RangeKey \<Rightarrow> bool \<Rightarrow> (int \<times> 'd Mapping) list" where
  "matcingScan [] startOffset from to baseOnRight = []"
| "matcingScan (mapping # rest) startOffset from to baseOnRight =
     (case matchOffset startOffset (rangeOf from mapping) (rangeOf to mapping) baseOnRight of
        None \<Rightarrow> matcingScan rest startOffset from to baseOnRight
      | Some mapped \<Rightarrow> (mapped, mapping) # matcingScan rest startOffset from to baseOnRight)"

text \<open>
  Modelled from the spec: the entries that the bias prefers in \<open>SourceMapBase.matcing\<close>.
  The spec (4.1, 8) resolves a tie at a boundary shared by two entries by the bias: \<open>left\<close>
  selects the entry whose range ends at the offset, \<open>right\<close> the entry whose range starts
  there.
\<close>

definition atBoundary :: "bool \<Rightarrow> int \<Rightarrow> int \<times> int \<Rightarrow> bool" where
  "atBoundary baseOnRight startOffset mappedFromRange =
     (if baseOnRight then fst mappedFromRange = startOffset
      else snd mappedFromRange = startOffset)"

text \<open>
  Modelled from the spec: \<open>SourceMapBase.matcing\<close> of the package @volar/source-map, which
  is not among the source files. It yields the matches of the scan: first those of the
  entries that the bias prefers at the offset, then the others; within each group the
  order of the table is the tie-break (spec 4.1, "Determinism").
\<close>

definition matcing ::
  "'d Mapping list \<Rightarrow> int \<Rightarrow> RangeKey \<Rightarrow> RangeKey \<Rightarrow> bool \<Rightarrow> (int \<times> 'd Mapping) list" where
  "matcing ms startOffset from to baseOnRight =
     (let matches = matcingScan ms startOffset from to baseOnRight
      in filter (\<lambda>mapped. atBoundary baseOnRight startOffset (rangeOf from (snd mapped))) matches
         @ filter (\<lambda>mapped. \<not> atBoundary baseOnRight startOffset (rangeOf from (snd mapped)))
             matches)"

section \<open>SourceMap\<close>

record 'd SourceMap =
  sourceDocument :: TextDocument
  mappedDocument :: TextDocument
  mappings :: "'d Mapping list"

text \<open>
  A generator is modelled by the list of the values it yields, in order. A
  \<open>for (const x of g) return x\<close> returns the first value, or nothing.
\<close>

fun firstYield :: "'a list \<Rightarrow> 'a option" where
  "firstYield [] = None"
| "firstYield (x # xs) = Some x"

fun toPositionsLoop ::
  "(int \<times> 'd Mapping) list \<Rightarrow> ('d \<Rightarrow> bool) \<Rightarrow> TextDocument \<Rightarrow> BaseOffset
    \<Rightarrow> (Position \<times> 'd Mapping) list" where
  "toPositionsLoop [] filter' toDoc baseOffset = []"
| "toPositionsLoop (mapped # rest) filter' toDoc baseOffset =
     (if \<not> filter' (data (snd mapped)) then toPositionsLoop rest filter' toDoc baseOffset
      else
        let mapping = snd mapped;
            offset = (if baseOffset = right
                      then fst mapped
                           + ((snd (sourceRange mapping) - fst (sourceRange mapping))
                              - (snd (generatedRange mapping) - fst (generatedRange mapping)))
                      else fst mapped)
        in (positionAt toDoc offset, mapping) # toPositionsLoop rest filter' toDoc baseOffset)"

definition toPositions ::
  "('d, 'z) SourceMap_scheme \<Rightarrow> Position \<Rightarrow> ('d \<Rightarrow> bool) \<Rightarrow> TextDocument \<Rightarrow> TextDocument
    \<Rightarrow> RangeKey \<Rightarrow> RangeKey \<Rightarrow> BaseOffset \<Rightarrow> (Position \<times> 'd Mapping) list" where
  "toPositions sm position filter' fromDoc toDoc from to baseOffset =
     toPositionsLoop
       (matcing (mappings sm) (offsetAt fromDoc position) from to (baseOffset = right))
       filter' toDoc baseOffset"

definition toSourcePositionsBase ::
  "('d, 'z) SourceMap_scheme \<Rightarrow> Position \<Rightarrow> ('d \<Rightarrow> bool) \<Rightarrow> BaseOffset \<Rightarrow> (Position \<times> 'd Mapping) list" where
  "toSourcePositionsBase sm position filter' baseOffset =
     toPositions sm position filter' (mappedDocument sm) (sourceDocument sm)
       generatedRangeKey sourceRangeKey baseOffset"

definition toGeneratedPositionsBase ::
  "('d, 'z) SourceMap_scheme \<Rightarrow> Position \<Rightarrow> ('d \<Rightarrow> bool) \<Rightarrow> BaseOffset \<Rightarrow> (Position \<times> 'd Mapping) list" where
  "toGeneratedPositionsBase sm position filter' baseOffset =
     toPositions sm position filter' (sourceDocument sm) (mappedDocument sm)
       sourceRangeKey generatedRangeKey baseOffset"

definition toSourcePositions ::
  "('d, 'z) SourceMap_scheme \<Rightarrow> Position \<Rightarrow> ('d \<Rightarrow> bool) \<Rightarrow> BaseOffset \<Rightarrow> Position list" where
  "toSourcePositions sm position filter' baseOffset =
     map fst (toSourcePositionsBase sm position filter' baseOffset)"

definition toGeneratedPositions ::
  "('d, 'z) SourceMap_scheme \<Rightarrow> Position \<Rightarrow> ('d \<Rightarrow> bool) \<Rightarrow> BaseOffset \<Rightarrow> Position list" where
  "toGeneratedPositions sm position filter' baseOffset =
     map fst (toGeneratedPositionsBase sm position filter' baseOffset)"

definition toSourcePosition ::
  "('d, 'z) SourceMap_scheme \<Rightarrow> Position \<Rightarrow> ('d \<Rightarrow> bool) \<Rightarrow> BaseOffset \<Rightarrow> Position option" where
  "toSourcePosition sm position filter' baseOffset =
     firstYield (toSourcePositions sm position filter' baseOffset)"

definition toGeneratedPosition ::
  "('d, 'z) SourceMap_scheme \<Rightarrow> Position \<Rightarrow> ('d \<Rightarrow> bool) \<Rightarrow> BaseOffset \<Rightarrow> Position option" where
  "toGeneratedPosition sm position filter' baseOffset =
     firstYield (toGeneratedPositions sm position filter' baseOffset)"

definition matchSourcePosition ::
  "('d, 'z) SourceMap_scheme \<Rightarrow> Position \<Rightarrow> 'd Mapping \<Rightarrow> BaseOffset \<Rightarrow> Position option" where
  "matchSourcePosition sm position mapping baseOffset =
     (case matchOffset (offsetAt (mappedDocument sm) position)
             (generatedRange mapping) (sourceRange mapping) (baseOffset = right) of
        None \<Rightarrow> None
      | Some offset \<Rightarrow> Some (positionAt (sourceDocument sm) offset))"

definition matchGeneratedPosition ::
  "('d, 'z) SourceMap_scheme \<Rightarrow> Position \<Rightarrow> 'd Mapping \<Rightarrow> BaseOffset \<Rightarrow> Position option" where
  "matchGeneratedPosition sm position mapping baseOffset =
     (case matchOffset (offsetAt (sourceDocument sm) position)
             (sourceRange mapping) (generatedRange mapping) (baseOffset = right) of
        None \<Rightarrow> None
      | Some offset \<Rightarrow> Some (positionAt (mappedDocument sm) offset))"

text \<open>
  \<open>toRanges\<close> reaches its two collaborators by the method names \<open>api\<close> and \<open>api2\<close>.
\<close>

datatype PositionsApi = toSourcePositionsBaseApi | toGeneratedPositionsBaseApi

datatype MatchApi = matchSourcePositionApi | matchGeneratedPositionApi

fun callApi ::
  "PositionsApi \<Rightarrow> ('d, 'z) SourceMap_scheme \<Rightarrow> Position \<Rightarrow> ('d \<Rightarrow> bool) \<Rightarrow> BaseOffset
    \<Rightarrow> (Position \<times> 'd Mapping) list" where
  "callApi toSourcePositionsBaseApi = toSourcePositionsBase"
| "callApi toGeneratedPositionsBaseApi = toGeneratedPositionsBase"

fun callApi2 ::
  "MatchApi \<Rightarrow> ('d, 'z) SourceMap_scheme \<Rightarrow> Position \<Rightarrow> 'd Mapping \<Rightarrow> BaseOffset \<Rightarrow> Position option" where
  "callApi2 matchSourcePositionApi = matchSourcePosition"
| "callApi2 matchGeneratedPositionApi = matchGeneratedPosition"

text \<open>
  The first loop of \<open>toRanges\<close>: it yields a range for every start match whose entry also
  resolves the end, and collects the other start matches in \<open>failedLookUps\<close>. The result is
  the pair of the yielded ranges and of \<open>failedLookUps\<close>.
\<close>

fun toRangesFirstLoop ::
  "(Position \<times> 'd Mapping) list \<Rightarrow> (Position \<Rightarrow> 'd Mapping \<Rightarrow> BaseOffset \<Rightarrow> Position option)
    \<Rightarrow> Range \<Rightarrow> Range list \<times> (Position \<times> 'd Mapping) list" where
  "toRangesFirstLoop [] match range' = ([], [])"
| "toRangesFirstLoop (mapped # rest) match range' =
     (let (yielded, failedLookUps) = toRangesFirstLoop rest match range'
      in case match (end' range') (snd mapped) right of
           Some e \<Rightarrow> (\<lparr>start = fst mapped, end' = e\<rparr> # yielded, failedLookUps)
         | None \<Rightarrow> (yielded, mapped # failedLookUps))"

text \<open>
  The second loop: every failed start match is paired with every match of the end of the
  range, found with the right bias over the whole table.
\<close>

fun toRangesSecondLoop ::
  "(Position \<times> 'd Mapping) list \<Rightarrow> (Position \<times> 'd Mapping) list \<Rightarrow> Range list" where
  "toRangesSecondLoop [] endMatches = []"
| "toRangesSecondLoop (failedLookUp # rest) endMatches =
     map (\<lambda>mapped. \<lparr>start = fst failedLookUp, end' = fst mapped\<rparr>) endMatches
     @ toRangesSecondLoop rest endMatches"

definition toRanges ::
  "('d, 'z) SourceMap_scheme \<Rightarrow> Range \<Rightarrow> ('d \<Rightarrow> bool) \<Rightarrow> PositionsApi \<Rightarrow> MatchApi \<Rightarrow> Range list" where
  "toRanges sm range' filter' api api2 =
     (let (yielded, failedLookUps) =
            toRangesFirstLoop (callApi api sm (start range') filter' left)
              (callApi2 api2 sm) range'
      in yielded @ toRangesSecondLoop failedLookUps (callApi api sm (end' range') filter' right))"

definition toSourceRanges :: "('d, 'z) SourceMap_scheme \<Rightarrow> Range \<Rightarrow> ('d \<Rightarrow> bool) \<Rightarrow> Range list" where
  "toSourceRanges sm range' filter' =
     toRanges sm range' filter' toSourcePositionsBaseApi matchSourcePositionApi"

definition toGeneratedRanges :: "('d, 'z) SourceMap_scheme \<Rightarrow> Range \<Rightarrow> ('d \<Rightarrow> bool) \<Rightarrow> Range list" where
  "toGeneratedRanges sm range' filter' =
     toRanges sm range' filter' toGeneratedPositionsBaseApi matchGeneratedPositionApi"

definition toSourceRange :: "('d, 'z) SourceMap_scheme \<Rightarrow> Range \<Rightarrow> ('d \<Rightarrow> bool) \<Rightarrow> Range option" where
  "toSourceRange sm range' filter' = firstYield (toSourceRanges sm range' filter')"

definition toGeneratedRange :: "('d, 'z) SourceMap_scheme \<Rightarrow> Range \<Rightarrow> ('d \<Rightarrow> bool) \<Rightarrow> Range option" where
  "toGeneratedRange sm range' filter' = firstYield (toGeneratedRanges sm range' filter')"

text \<open>The default filter of every lookup, \<open>() => true\<close>.\<close>

definition acceptAll :: "'d \<Rightarrow> bool" where
  "acceptAll d = True"

section \<open>Virtual files and the two kinds of source map\<close>

text \<open>
  \<open>TeleportMappingData\<close> and \<open>VirtualFile\<close> are declared in @volar/language-core; the
  fields below are the ones the code reads. The capability types \<open>PositionCapabilities\<close>
  (\<open>'p\<close>) and \<open>TeleportCapabilities\<close> (\<open>'c\<close>) are type parameters.
\<close>

record 'c TeleportMappingData =
  toSourceCapabilities :: 'c
  toGenedCapabilities :: 'c

datatype ('p, 'c) VirtualFile =
  VirtualFile
    (fileName: string)
    (fileText: string)
    (fileMappings: "'p Mapping list")
    (teleportMappings: "'c TeleportMappingData Mapping list option")
    (embeddeds: "('p, 'c) VirtualFile list")

record ('p, 'c) EmbeddedDocumentSourceMap = "'p SourceMap" +
  rootFile :: "('p, 'c) VirtualFile"
  embeddedFile :: "('p, 'c) VirtualFile"

definition newEmbeddedDocumentSourceMap ::
  "('p, 'c) VirtualFile \<Rightarrow> ('p, 'c) VirtualFile \<Rightarrow> TextDocument \<Rightarrow> TextDocument
    \<Rightarrow> 'p Mapping list \<Rightarrow> ('p, 'c) EmbeddedDocumentSourceMap" where
  "newEmbeddedDocumentSourceMap root f sourceDoc mappedDoc ms =
     \<lparr>sourceDocument = sourceDoc, mappedDocument = mappedDoc, mappings = ms,
      rootFile = root, embeddedFile = f\<rparr>"

record ('p, 'c) TeleportSourceMap = "'c TeleportMappingData SourceMap" +
  teleportFile :: "('p, 'c) VirtualFile"
  teleportDocument :: TextDocument

text \<open>The constructor passes the one document as both sides: \<open>super(document, document, mappings)\<close>.\<close>

definition newTeleportSourceMap ::
  "('p, 'c) VirtualFile \<Rightarrow> TextDocument \<Rightarrow> 'c TeleportMappingData Mapping list
    \<Rightarrow> ('p, 'c) TeleportSourceMap" where
  "newTeleportSourceMap f doc ms =
     \<lparr>sourceDocument = doc, mappedDocument = doc, mappings = ms,
      teleportFile = f, teleportDocument = doc\<rparr>"

definition findTeleports ::
  "('c TeleportMappingData, 'z) SourceMap_scheme \<Rightarrow> Position \<Rightarrow> (Position \<times> 'c) list" where
  "findTeleports tm startPos =
     map (\<lambda>mapped. (fst mapped, toGenedCapabilities (data (snd mapped))))
       (toGeneratedPositionsBase tm startPos acceptAll left)
     @ map (\<lambda>mapped. (fst mapped, toSourceCapabilities (data (snd mapped))))
         (toSourcePositionsBase tm startPos acceptAll left)"

section \<open>The document registry\<close>

text \<open>
  Modelled from the spec: \<open>forEachEmbeddeds\<close> of @volar/language-core, which is not among
  the source files. The spec (3) walks the tree of virtual files in pre-order; the list is
  the sequence of files the callback is called with.
\<close>

fun forEachEmbeddeds :: "('p, 'c) VirtualFile \<Rightarrow> ('p, 'c) VirtualFile list" where
  "forEachEmbeddeds (VirtualFile n t ms tms es) =
     VirtualFile n t ms tms es # concat (map forEachEmbeddeds es)"

text \<open>
  A script snapshot is an object: it is modelled by its address, and the text it holds
  (\<open>snapshot.getText(0, snapshot.getLength())\<close>, which never changes) is read from the
  environment. The environment also holds the collaborators of the registry that are not
  among the source files: the path and uri helpers of @volar/shared, \<open>TextDocument.create\<close>,
  the built-in \<open>String.prototype.toLowerCase\<close> and the two lookups of the
  \<open>DocumentRegistry\<close> mapper.
\<close>

type_synonym Snapshot = nat

record Shared =
  getPathOfUri :: "string \<Rightarrow> string"
  getUriByPath :: "string \<Rightarrow> string"
  syntaxToLanguageId :: "string \<Rightarrow> string"

record ('p, 'c) RegistryEnv =
  shared :: Shared
  createTextDocument :: "string \<Rightarrow> string \<Rightarrow> int \<Rightarrow> string \<Rightarrow> TextDocument"
  snapshotText :: "Snapshot \<Rightarrow> string"
  toLowerCase :: "string \<Rightarrow> string"
  mapperGet :: "string \<Rightarrow> (Snapshot \<times> ('p, 'c) VirtualFile) option"
  getSourceByVirtualFileName :: "string \<Rightarrow> (string \<times> Snapshot \<times> ('p, 'c) VirtualFile) option"

text \<open>
  The value of the \<open>WeakMap\<close>. The two JavaScript \<open>Map\<close>s keyed by the virtual file object
  are lists of pairs in insertion order; the walk visits every node of the tree once, each
  node being an object of its own.
\<close>

record ('p, 'c) Bundle =
  bundleFileName :: string
  bundleSnapshot :: Snapshot
  bundleDocument :: TextDocument
  bundleFile :: "('p, 'c) VirtualFile"
  bundleMaps :: "(('p, 'c) VirtualFile \<times> ('p, 'c) EmbeddedDocumentSourceMap) list"
  bundleTeleports :: "(('p, 'c) VirtualFile \<times> ('p, 'c) TeleportSourceMap) list"

text \<open>
  The state of \<open>parseSourceFileDocuments\<close>: the counter \<open>version\<close> and the \<open>WeakMap\<close>
  \<open>snapshotsToMaps\<close>, keyed by the snapshot object.
\<close>

record ('p, 'c) RegistryState =
  versionCounter :: int
  snapshotsToMaps :: "Snapshot \<rightharpoonup> ('p, 'c) Bundle"

definition initialRegistry :: "('p, 'c) RegistryState" where
  "initialRegistry = \<lparr>versionCounter = 0, snapshotsToMaps = Map.empty\<rparr>"

text \<open>
  \<open>fileName.substring(fileName.lastIndexOf('.') + 1)\<close>: the text after the last dot, the
  whole name when it has no dot.
\<close>

definition afterLastDot :: "string \<Rightarrow> string" where
  "afterLastDot s = rev (takeWhile (\<lambda>c. c \<noteq> CHR ''.'') (rev s))"

text \<open>
  The callback of \<open>forEachEmbeddeds\<close> in \<open>getMaps\<close>, run over the files of the walk: it
  threads the counter and the two maps.
\<close>

fun embedLoop ::
  "('p, 'c) RegistryEnv \<Rightarrow> ('p, 'c) VirtualFile \<Rightarrow> TextDocument \<Rightarrow> ('p, 'c) VirtualFile list
    \<Rightarrow> int \<Rightarrow> (('p, 'c) VirtualFile \<times> ('p, 'c) EmbeddedDocumentSourceMap) list
    \<Rightarrow> (('p, 'c) VirtualFile \<times> ('p, 'c) TeleportSourceMap) list
    \<Rightarrow> int \<times> (('p, 'c) VirtualFile \<times> ('p, 'c) EmbeddedDocumentSourceMap) list
        \<times> (('p, 'c) VirtualFile \<times> ('p, 'c) TeleportSourceMap) list" where
  "embedLoop env root document [] v maps teleports = (v, maps, teleports)"
| "embedLoop env root document (f # fs) v maps teleports =
     (let virtualFileDocument =
            createTextDocument env (getUriByPath (shared env) (fileName f))
              (syntaxToLanguageId (shared env) (afterLastDot (fileName f))) v (fileText f);
          maps' = maps @ [(f, newEmbeddedDocumentSourceMap root f document virtualFileDocument
                               (fileMappings f))];
          teleports' = (case teleportMappings f of
                          None \<Rightarrow> teleports
                        | Some tms \<Rightarrow>
                            teleports @ [(f, newTeleportSourceMap f virtualFileDocument tms)])
      in embedLoop env root document fs (v + 1) maps' teleports')"

definition getMaps ::
  "('p, 'c) RegistryEnv \<Rightarrow> ('p, 'c) RegistryState \<Rightarrow> string \<Rightarrow> Snapshot \<Rightarrow> ('p, 'c) VirtualFile
    \<Rightarrow> ('p, 'c) Bundle \<times> ('p, 'c) RegistryState" where
  "getMaps env st fName snapshot root =
     (case snapshotsToMaps st snapshot of
        Some result \<Rightarrow> (result, st)
      | None \<Rightarrow>
          (let document = createTextDocument env (getUriByPath (shared env) fName) ''vue''
                            (versionCounter st) (snapshotText env snapshot);
               (v, maps, teleports) =
                 embedLoop env root document (forEachEmbeddeds root) (versionCounter st + 1) [] [];
               result = \<lparr>bundleFileName = fName, bundleSnapshot = snapshot,
                         bundleDocument = document, bundleFile = root,
                         bundleMaps = maps, bundleTeleports = teleports\<rparr>
           in (result, st\<lparr>versionCounter := v,
                          snapshotsToMaps := (snapshotsToMaps st)(snapshot \<mapsto> result)\<rparr>)))"

definition get ::
  "('p, 'c) RegistryEnv \<Rightarrow> ('p, 'c) RegistryState \<Rightarrow> string
    \<Rightarrow> ('p, 'c) Bundle option \<times> ('p, 'c) RegistryState" where
  "get env st u =
     (let fName = getPathOfUri (shared env) u in
      case mapperGet env fName of
        None \<Rightarrow> (None, st)
      | Some virtualFile \<Rightarrow>
          (let (result, st') = getMaps env st fName (fst virtualFile) (snd virtualFile)
           in (Some result, st')))"

definition getTeleport ::
  "('p, 'c) RegistryEnv \<Rightarrow> ('p, 'c) RegistryState \<Rightarrow> string
    \<Rightarrow> ('p, 'c) TeleportSourceMap option \<times> ('p, 'c) RegistryState" where
  "getTeleport env st virtualFileUri =
     (let fName = getPathOfUri (shared env) virtualFileUri in
      case getSourceByVirtualFileName env fName of
        None \<Rightarrow> (None, st)
      | Some source \<Rightarrow>
          (let (maps, st') = getMaps env st (fst source) (fst (snd source)) (snd (snd source))
           in (find (\<lambda>teleport. toLowerCase env (fileName (teleportFile teleport)) = toLowerCase env fName)
                 (map snd (bundleTeleports maps)), st')))"

definition getMap ::
  "('p, 'c) RegistryEnv \<Rightarrow> ('p, 'c) RegistryState \<Rightarrow> string
    \<Rightarrow> ('p, 'c) EmbeddedDocumentSourceMap option \<times> ('p, 'c) RegistryState" where
  "getMap env st virtualFileUri =
     (let fName = getPathOfUri (shared env) virtualFileUri in
      case getSourceByVirtualFileName env fName of
        None \<Rightarrow> (None, st)
      | Some source \<Rightarrow>
          (let (maps, st') = getMaps env st (fst source) (fst (snd source)) (snd (snd source))
           in (find (\<lambda>m. toLowerCase env (fileName (embeddedFile m)) = toLowerCase env fName)
                 (map snd (bundleMaps maps)), st')))"

section \<open>Deduplication of call hierarchy results\<close>

text \<open>
  The protocol types \<open>CallHierarchyItem\<close>, \<open>CallHierarchyIncomingCall\<close> and
  \<open>CallHierarchyOutgoingCall\<close>, with the payload \<open>PluginCallHierarchyData\<close> that
  \<open>doPrepare\<close> stores in the field \<open>data\<close> of an item.
\<close>

record EmbeddedRef =
  embeddedDocumentUri :: string

datatype CallHierarchyItem =
  CallHierarchyItem
    (itemName: string)
    (itemKind: int)
    (itemUri: string)
    (itemRange: Range)
    (itemSelectionRange: Range)
    (itemData: "PluginCallHierarchyData option")
and PluginCallHierarchyData =
  PluginCallHierarchyData
    (dataUri: string)
    (originalItem: CallHierarchyItem)
    (pluginId: int)
    (dataMap: "EmbeddedRef option")

record CallHierarchyIncomingCall =
  from' :: CallHierarchyItem
  fromRanges :: "Range list"

record CallHierarchyOutgoingCall =
  to' :: CallHierarchyItem
  fromRanges' :: "Range list"

text \<open>
  Modelled from the spec: the location of an item in the module \<open>utils/dedupe\<close> of the
  language service, which is not among the source files. The spec (4.5) calls two items
  location-equal when they have the same uri and the same range.
\<close>

definition locationKey :: "CallHierarchyItem \<Rightarrow> string \<times> Range" where
  "locationKey item = (itemUri item, itemRange item)"

text \<open>
  Modelled from the spec: the source order of call-site ranges in \<open>utils/dedupe\<close>. The
  spec (4.5) orders the ranges of a union by their position in the document: by start,
  then by end.
\<close>

definition rangeKey :: "Range \<Rightarrow> (int \<times> int) \<times> (int \<times> int)" where
  "rangeKey r = ((line (start r), character (start r)), (line (end' r), character (end' r)))"

text \<open>
  Modelled from the spec: the union of two call-site range lists in \<open>utils/dedupe\<close>. The
  spec (4.5) unions the lists in source order: the ranges of both lists, each once, in
  \<open>rangeKey\<close> order.
\<close>

definition unionRanges :: "Range list \<Rightarrow> Range list \<Rightarrow> Range list" where
  "unionRanges xs ys = sort_key rangeKey (remdups (xs @ ys))"

text \<open>
  Modelled from the spec: one step of \<open>withCallHierarchyIncomingCalls\<close> in \<open>utils/dedupe\<close>.
  The spec (4.5) keeps the first occurrence of a location in first-occurrence order and
  unions the call-site ranges of a later location-equal item into it.
\<close>

fun mergeIncoming ::
  "CallHierarchyIncomingCall \<Rightarrow> CallHierarchyIncomingCall list \<Rightarrow> CallHierarchyIncomingCall list" where
  "mergeIncoming item [] = [item]"
| "mergeIncoming item (kept # rest) =
     (if locationKey (from' kept) = locationKey (from' item)
      then kept\<lparr>fromRanges := unionRanges (fromRanges kept) (fromRanges item)\<rparr> # rest
      else kept # mergeIncoming item rest)"

text \<open>
  Modelled from the spec: \<open>withCallHierarchyIncomingCalls\<close> of \<open>utils/dedupe\<close>. The spec
  (4.5) applies the location-equality rule to the nested caller item of every call, in the
  order of the list.
\<close>

definition withCallHierarchyIncomingCalls ::
  "CallHierarchyIncomingCall list \<Rightarrow> CallHierarchyIncomingCall list" where
  "withCallHierarchyIncomingCalls items = foldl (\<lambda>acc item. mergeIncoming item acc) [] items"

text \<open>
  Modelled from the spec: one step of \<open>withCallHierarchyOutgoingCalls\<close> in \<open>utils/dedupe\<close>.
  The spec (4.5) treats the nested callee item as it treats the caller item.
\<close>

fun mergeOutgoing ::
  "CallHierarchyOutgoingCall \<Rightarrow> CallHierarchyOutgoingCall list \<Rightarrow> CallHierarchyOutgoingCall list" where
  "mergeOutgoing item [] = [item]"
| "mergeOutgoing item (kept # rest) =
     (if locationKey (to' kept) = locationKey (to' item)
      then kept\<lparr>fromRanges' := unionRanges (fromRanges' kept) (fromRanges' item)\<rparr> # rest
      else kept # mergeOutgoing item rest)"

text \<open>
  Modelled from the spec: \<open>withCallHierarchyOutgoingCalls\<close> of \<open>utils/dedupe\<close>. The spec
  (4.5) applies the location-equality rule to the nested callee item of every call, in the
  order of the list.
\<close>

definition withCallHierarchyOutgoingCalls ::
  "CallHierarchyOutgoingCall list \<Rightarrow> CallHierarchyOutgoingCall list" where
  "withCallHierarchyOutgoingCalls items = foldl (\<lambda>acc item. mergeOutgoing item acc) [] items"

section \<open>Call hierarchy\<close>

text \<open>
  A plugin answers the two queries of its optional \<open>callHierarchy\<close> service. The context of
  \<open>register\<close> holds the plugins and the registry lookup \<open>documents.getMap\<close>; the helpers
  \<open>shared.getPathOfUri\<close> and \<open>path.basename\<close> come with it.
\<close>

record CallHierarchyService =
  onIncomingCalls :: "CallHierarchyItem \<Rightarrow> CallHierarchyIncomingCall list"
  onOutgoingCalls :: "CallHierarchyItem \<Rightarrow> CallHierarchyOutgoingCall list"

record LanguageServicePlugin =
  callHierarchy :: "CallHierarchyService option"

record ('p, 'c) LanguageServiceRuntimeContext =
  plugins :: "LanguageServicePlugin list"
  documentsGetMap :: "string \<Rightarrow> ('p, 'c) EmbeddedDocumentSourceMap option"
  contextShared :: Shared
  basename :: "string \<Rightarrow> string"

text \<open>\<open>xs[i]\<close> of JavaScript: the element at an index of the array, nothing elsewhere.\<close>

definition arrayGet :: "'a list \<Rightarrow> int \<Rightarrow> 'a option" where
  "arrayGet xs i = (if 0 \<le> i \<and> i < int (length xs) then Some (xs ! nat i) else None)"

text \<open>
  Every query sent to a plugin is recorded: the index of the plugin and the item it is
  asked about.
\<close>

datatype PluginQuery =
  IncomingCallsQuery int CallHierarchyItem
| OutgoingCallsQuery int CallHierarchyItem

definition transformCallHierarchyItem ::
  "('p, 'c) LanguageServiceRuntimeContext \<Rightarrow> CallHierarchyItem \<Rightarrow> Range list
    \<Rightarrow> (CallHierarchyItem \<times> Range list) option" where
  "transformCallHierarchyItem context tsItem tsRanges =
     (case documentsGetMap context (itemUri tsItem) of
        None \<Rightarrow> Some (tsItem, tsRanges)
      | Some m \<Rightarrow>
          (let range' =
                 (case toSourceRange m (itemRange tsItem) acceptAll of
                    Some r \<Rightarrow> r
                  | None \<Rightarrow>
                      \<lparr>start = positionAt (sourceDocument m) 0,
                       end' = positionAt (sourceDocument m)
                                (int (length (getText (sourceDocument m))))\<rparr>)
           in case toSourceRange m (itemSelectionRange tsItem) acceptAll of
                None \<Rightarrow> None
              | Some selectionRange \<Rightarrow>
                  (let vueRanges =
                         List.map_filter (\<lambda>tsRange. toSourceRange m tsRange acceptAll) tsRanges;
                       vueItem =
                         CallHierarchyItem
                           (if itemName tsItem
                               = basename context
                                   (getPathOfUri (contextShared context) (uri (mappedDocument m)))
                            then basename context
                                   (getPathOfUri (contextShared context) (uri (sourceDocument m)))
                            else itemName tsItem)
                           (itemKind tsItem)
                           (uri (sourceDocument m))
                           \<lparr>start = start range', end' = end' range'\<rparr>
                           \<lparr>start = start selectionRange, end' = end' selectionRange\<rparr>
                           (itemData tsItem)
                   in Some (vueItem, vueRanges))))"

text \<open>
  The result transform of \<open>doPrepare\<close>: without a source map the items pass unchanged, with
  one every item is transformed and the items without a result are filtered out.
\<close>

definition doPrepareTransform ::
  "('p, 'c) LanguageServiceRuntimeContext \<Rightarrow> CallHierarchyItem list
    \<Rightarrow> ('p, 'c) EmbeddedDocumentSourceMap option \<Rightarrow> CallHierarchyItem list" where
  "doPrepareTransform context items sourceMap =
     (case sourceMap of
        None \<Rightarrow> items
      | Some m \<Rightarrow>
          List.map_filter
            (\<lambda>item. map_option fst (transformCallHierarchyItem context item [])) items)"

fun incomingLoop ::
  "('p, 'c) LanguageServiceRuntimeContext \<Rightarrow> CallHierarchyIncomingCall list
    \<Rightarrow> CallHierarchyIncomingCall list" where
  "incomingLoop context [] = []"
| "incomingLoop context (call # rest) =
     (case transformCallHierarchyItem context (from' call) (fromRanges call) of
        None \<Rightarrow> incomingLoop context rest
      | Some calls \<Rightarrow> \<lparr>from' = fst calls, fromRanges = snd calls\<rparr> # incomingLoop context rest)"

fun outgoingLoop ::
  "('p, 'c) LanguageServiceRuntimeContext \<Rightarrow> CallHierarchyOutgoingCall list
    \<Rightarrow> CallHierarchyOutgoingCall list" where
  "outgoingLoop context [] = []"
| "outgoingLoop context (call # rest) =
     (case transformCallHierarchyItem context (to' call) (fromRanges' call) of
        None \<Rightarrow> outgoingLoop context rest
      | Some calls \<Rightarrow> \<lparr>to' = fst calls, fromRanges' = snd calls\<rparr> # outgoingLoop context rest)"

text \<open>
  \<open>getIncomingCalls\<close> and \<open>getOutgoingCalls\<close> return their result together with the queries
  they sent to plugins, in order.
\<close>

definition getIncomingCalls ::
  "('p, 'c) LanguageServiceRuntimeContext \<Rightarrow> CallHierarchyItem
    \<Rightarrow> CallHierarchyIncomingCall list \<times> PluginQuery list" where
  "getIncomingCalls context item =
     (case itemData item of
        None \<Rightarrow> (withCallHierarchyIncomingCalls [], [])
      | Some d \<Rightarrow>
          (case arrayGet (plugins context) (pluginId d) of
             None \<Rightarrow> ([], [])
           | Some plugin \<Rightarrow>
               (case callHierarchy plugin of
                  None \<Rightarrow> ([], [])
                | Some service \<Rightarrow>
                    (case dataMap d of
                       Some ref \<Rightarrow>
                         (case documentsGetMap context (embeddedDocumentUri ref) of
                            None \<Rightarrow> (withCallHierarchyIncomingCalls [], [])
                          | Some sourceMap \<Rightarrow>
                              (withCallHierarchyIncomingCalls
                                 (incomingLoop context (onIncomingCalls service (originalItem d))),
                               [IncomingCallsQuery (pluginId d) (originalItem d)]))
                     | None \<Rightarrow>
                         (withCallHierarchyIncomingCalls
                            (incomingLoop context (onIncomingCalls service item)),
                          [IncomingCallsQuery (pluginId d) item])))))"

definition getOutgoingCalls ::
  "('p, 'c) LanguageServiceRuntimeContext \<Rightarrow> CallHierarchyItem
    \<Rightarrow> CallHierarchyOutgoingCall list \<times> PluginQuery list" where
  "getOutgoingCalls context item =
     (case itemData item of
        None \<Rightarrow> (withCallHierarchyOutgoingCalls [], [])
      | Some d \<Rightarrow>
          (case arrayGet (plugins context) (pluginId d) of
             None \<Rightarrow> ([], [])
           | Some plugin \<Rightarrow>
               (case callHierarchy plugin of
                  None \<Rightarrow> ([], [])
                | Some service \<Rightarrow>
                    (case dataMap d of
                       Some ref \<Rightarrow>
                         (case documentsGetMap context (embeddedDocumentUri ref) of
                            None \<Rightarrow> (withCallHierarchyOutgoingCalls [], [])
                          | Some sourceMap \<Rightarrow>
                              (withCallHierarchyOutgoingCalls
                                 (outgoingLoop context (onOutgoingCalls service (originalItem d))),
                               [OutgoingCallsQuery (pluginId d) (originalItem d)]))
                     | None \<Rightarrow>
                         (withCallHierarchyOutgoingCalls
                            (outgoingLoop context (onOutgoingCalls service item)),
                          [OutgoingCallsQuery (pluginId d) item])))))"

section \<open>Auto insert\<close>

text \<open>
  A plugin answers \<open>doAutoInsert\<close> with a string or with a text edit. The result
  transform of the feature returns a string as it is and an edit with its range mapped to
  the source, or nothing when the range has no source correspondence.
\<close>

datatype AutoInsertResult = InsertString string | InsertTextEdit Range string

definition autoInsertTransform ::
  "AutoInsertResult \<Rightarrow> ('d, 'z) SourceMap_scheme \<Rightarrow> AutoInsertResult option" where
  "autoInsertTransform result m =
     (case result of
        InsertString s \<Rightarrow> Some (InsertString s)
      | InsertTextEdit editRange newText \<Rightarrow>
          (case toSourceRange m editRange acceptAll of
             Some range' \<Rightarrow> Some (InsertTextEdit range' newText)
           | None \<Rightarrow> None))"

section \<open>Hover of the pug language service\<close>



section \<open>Notions used to state the properties\<close>

text \<open>An offset lies in a range of an entry when it is between its two ends, ends included.\<close>

definition containsOffset :: "int \<times> int \<Rightarrow> int \<Rightarrow> bool" where
  "containsOffset r k = (fst r \<le> k \<and> k \<le> snd r)"

text \<open>The length of a range of an entry.\<close>

definition rangeLength :: "int \<times> int \<Rightarrow> int" where
  "rangeLength r = snd r - fst r"

text \<open>
  What \<open>toPositions\<close> adds to a translated offset: with \<open>right\<close> the length of the source
  range minus the length of the generated range, with \<open>left\<close> nothing.
\<close>

definition biasShift :: "BaseOffset \<Rightarrow> 'd Mapping \<Rightarrow> int" where
  "biasShift b m =
     (if b = right
      then (snd (sourceRange m) - fst (sourceRange m))
           - (snd (generatedRange m) - fst (generatedRange m))
      else 0)"

text \<open>
  The offset a position lookup translates an offset to through an entry: the left-based
  shift, under \<open>right\<close> the difference of the lengths that \<open>matchOffset\<close> adds, and what
  \<open>toPositions\<close> adds.
\<close>

definition lookupOffset :: "BaseOffset \<Rightarrow> RangeKey \<Rightarrow> RangeKey \<Rightarrow> 'd Mapping \<Rightarrow> int \<Rightarrow> int" where
  "lookupOffset b from to m k =
     fst (rangeOf to m) + (k - fst (rangeOf from m))
     + (if b = right then rangeLength (rangeOf to m) - rangeLength (rangeOf from m) else 0)
     + biasShift b m"

text \<open>
  The conversions of a document keep the order: a later position has a later offset, and
  a later offset a later position.
\<close>

definition monotoneDocument :: "TextDocument \<Rightarrow> bool" where
  "monotoneDocument d =
     ((\<forall>p q. pos_le p q \<longrightarrow> offsetAt d p \<le> offsetAt d q)
      \<and> (\<forall>a b. a \<le> b \<longrightarrow> pos_le (positionAt d a) (positionAt d b)))"

text \<open>
  The two parts of the result of \<open>toRanges\<close>: the ranges of the first loop, whose two ends
  are resolved through one entry, and the ranges of the second loop, the fallback.
\<close>

definition sameEntryRanges ::
  "('d, 'z) SourceMap_scheme \<Rightarrow> Range \<Rightarrow> ('d \<Rightarrow> bool) \<Rightarrow> PositionsApi \<Rightarrow> MatchApi \<Rightarrow> Range list" where
  "sameEntryRanges sm range' filter' api api2 =
     fst (toRangesFirstLoop (callApi api sm (start range') filter' left) (callApi2 api2 sm) range')"

definition fallbackRanges ::
  "('d, 'z) SourceMap_scheme \<Rightarrow> Range \<Rightarrow> ('d \<Rightarrow> bool) \<Rightarrow> PositionsApi \<Rightarrow> MatchApi \<Rightarrow> Range list" where
  "fallbackRanges sm range' filter' api api2 =
     toRangesSecondLoop
       (snd (toRangesFirstLoop (callApi api sm (start range') filter' left) (callApi2 api2 sm)
               range'))
       (callApi api sm (end' range') filter' right)"

text \<open>
  The fallback pairings of a range: a match of its start whose entry does not resolve its
  end, paired with a match of its end anywhere in the table.
\<close>

definition fallbackPairings ::
  "('d, 'z) SourceMap_scheme \<Rightarrow> Range \<Rightarrow> ('d \<Rightarrow> bool) \<Rightarrow> PositionsApi \<Rightarrow> MatchApi \<Rightarrow> Range set" where
  "fallbackPairings sm range' filter' api api2 =
     {\<lparr>start = fst a, end' = fst b\<rparr> | a b.
        a \<in> set (callApi api sm (start range') filter' left)
        \<and> callApi2 api2 sm (end' range') (snd a) right = None
        \<and> b \<in> set (callApi api sm (end' range') filter' right)}"

text \<open>
  The round trip of a source position: to the generated side and back, through one entry
  with the two per-entry matchers, and through the table with the two position lookups.
\<close>

definition roundTripThroughEntry ::
  "('d, 'z) SourceMap_scheme \<Rightarrow> Position \<Rightarrow> 'd Mapping \<Rightarrow> Position option" where
  "roundTripThroughEntry sm p m =
     (case matchGeneratedPosition sm p m left of
        None \<Rightarrow> None
      | Some g \<Rightarrow> matchSourcePosition sm g m left)"

definition roundTripLookup :: "('d, 'z) SourceMap_scheme \<Rightarrow> Position \<Rightarrow> Position option" where
  "roundTripLookup sm p =
     (case toGeneratedPosition sm p acceptAll left of
        None \<Rightarrow> None
      | Some g \<Rightarrow> toSourcePosition sm g acceptAll left)"

text \<open>The yielded teleports whose position lies in a given range of the document.\<close>

definition yieldsInside ::
  "TextDocument \<Rightarrow> int \<times> int \<Rightarrow> (Position \<times> 'c) list \<Rightarrow> (Position \<times> 'c) list" where
  "yieldsInside d rng ys = filter (\<lambda>y. containsOffset rng (offsetAt d (fst y))) ys"

text \<open>The range \<open>transformCallHierarchyItem\<close> falls back to: the whole source document.\<close>

definition wholeDocumentRange :: "TextDocument \<Rightarrow> Range" where
  "wholeDocumentRange d =
     \<lparr>start = positionAt d 0, end' = positionAt d (int (length (getText d)))\<rparr>"

text \<open>
  The document that \<open>getMaps\<close> creates for a virtual file at a version, the source map it
  builds for the file over the document of the source, and the teleport map it builds for
  a file that has teleport mappings.
\<close>

definition virtualFileDocumentOf ::
  "('p, 'c) RegistryEnv \<Rightarrow> ('p, 'c) VirtualFile \<Rightarrow> int \<Rightarrow> TextDocument" where
  "virtualFileDocumentOf env f v =
     createTextDocument env (getUriByPath (shared env) (fileName f))
       (syntaxToLanguageId (shared env) (afterLastDot (fileName f))) v (fileText f)"

definition embeddedMapFor ::
  "('p, 'c) RegistryEnv \<Rightarrow> ('p, 'c) VirtualFile \<Rightarrow> TextDocument
    \<Rightarrow> ('p, 'c) VirtualFile \<times> ('p, 'c) EmbeddedDocumentSourceMap \<Rightarrow> bool" where
  "embeddedMapFor env root document x =
     (\<exists>v. snd x = newEmbeddedDocumentSourceMap root (fst x) document
                     (virtualFileDocumentOf env (fst x) v) (fileMappings (fst x)))"

definition teleportFor ::
  "('p, 'c) RegistryEnv \<Rightarrow> (('p, 'c) VirtualFile \<times> ('p, 'c) EmbeddedDocumentSourceMap) list
    \<Rightarrow> ('p, 'c) VirtualFile \<times> ('p, 'c) TeleportSourceMap \<Rightarrow> bool" where
  "teleportFor env maps x =
     (\<exists>v tms. teleportMappings (fst x) = Some tms
        \<and> snd x = newTeleportSourceMap (fst x) (virtualFileDocumentOf env (fst x) v) tms
        \<and> (\<exists>m. (fst x, m) \<in> set maps \<and> mappedDocument m = virtualFileDocumentOf env (fst x) v))"

text \<open>
  A bundle is built from a snapshot when it records the snapshot, its document was created
  from the text of the snapshot, its maps are, in the order of the walk, one map per file
  of the tree of its root file, each over the document of the bundle and with the mappings
  of its file, and its teleports are one teleport map per file of the tree that has
  teleport mappings, each over the document of the embedded map of the same file.
\<close>

definition builtFrom :: "('p, 'c) RegistryEnv \<Rightarrow> Snapshot \<Rightarrow> ('p, 'c) Bundle \<Rightarrow> bool" where
  "builtFrom env snapshot b =
     (bundleSnapshot b = snapshot
      \<and> (\<exists>v. bundleDocument b =
            createTextDocument env (getUriByPath (shared env) (bundleFileName b)) ''vue'' v
              (snapshotText env snapshot))
      \<and> map fst (bundleMaps b) = forEachEmbeddeds (bundleFile b)
      \<and> (\<forall>x \<in> set (bundleMaps b). embeddedMapFor env (bundleFile b) (bundleDocument b) x)
      \<and> map fst (bundleTeleports b)
          = filter (\<lambda>f. teleportMappings f \<noteq> None) (forEachEmbeddeds (bundleFile b))
      \<and> (\<forall>x \<in> set (bundleTeleports b). teleportFor env (bundleMaps b) x))"

text \<open>
  The states of the registry that a run can reach: \<open>get\<close>, \<open>getMap\<close> and \<open>getTeleport\<close>
  change the state through \<open>getMaps\<close> only.
\<close>

inductive reachable :: "('p, 'c) RegistryEnv \<Rightarrow> ('p, 'c) RegistryState \<Rightarrow> bool"
  for env :: "('p, 'c) RegistryEnv" where
  initial: "reachable env initialRegistry"
| lookup: "reachable env st \<Longrightarrow> reachable env (snd (getMaps env st fName snapshot root))"

text \<open>
  The location of the nested item of a call, and the call-site ranges that the calls of
  one location contribute.
\<close>

definition incomingKey :: "CallHierarchyIncomingCall \<Rightarrow> string \<times> Range" where
  "incomingKey x = locationKey (from' x)"

definition outgoingKey :: "CallHierarchyOutgoingCall \<Rightarrow> string \<times> Range" where
  "outgoingKey x = locationKey (to' x)"

definition incomingRangesAt ::
  "string \<times> Range \<Rightarrow> CallHierarchyIncomingCall list \<Rightarrow> Range set" where
  "incomingRangesAt k xs = (\<Union>x \<in> {x \<in> set xs. incomingKey x = k}. set (fromRanges x))"

definition outgoingRangesAt ::
  "string \<times> Range \<Rightarrow> CallHierarchyOutgoingCall list \<Rightarrow> Range set" where
  "outgoingRangesAt k xs = (\<Union>x \<in> {x \<in> set xs. outgoingKey x = k}. set (fromRanges' x))"

section \<open>Concrete documents, maps and items\<close>

definition exampleDocument :: TextDocument where
  "exampleDocument = lineDocument ''file:///example'' (replicate 30 CHR ''x'')"

definition exampleRange :: "int \<Rightarrow> int \<Rightarrow> Range" where
  "exampleRange a b = \<lparr>start = \<lparr>line = 0, character = a\<rparr>, end' = \<lparr>line = 0, character = b\<rparr>\<rparr>"

text \<open>Two entries that are far apart in the source and in reverse order in the generated text.\<close>

definition crossEntryMap :: "nat SourceMap" where
  "crossEntryMap =
     \<lparr>sourceDocument = exampleDocument, mappedDocument = exampleDocument,
      mappings = [\<lparr>sourceRange = (0, 2), generatedRange = (10, 12), data = 1\<rparr>,
                  \<lparr>sourceRange = (5, 7), generatedRange = (0, 2), data = 2\<rparr>]\<rparr>"

text \<open>Two entries whose source ranges share the boundary 5.\<close>

definition endingEntry :: "nat Mapping" where
  "endingEntry = \<lparr>sourceRange = (0, 5), generatedRange = (0, 5), data = 1\<rparr>"

definition startingEntry :: "nat Mapping" where
  "startingEntry = \<lparr>sourceRange = (5, 10), generatedRange = (20, 25), data = 2\<rparr>"

definition adjacentMap :: "nat SourceMap" where
  "adjacentMap =
     \<lparr>sourceDocument = exampleDocument, mappedDocument = exampleDocument,
      mappings = [endingEntry, startingEntry]\<rparr>"

text \<open>The same two entries in the other order of the table.\<close>

definition adjacentMapReversed :: "nat SourceMap" where
  "adjacentMapReversed =
     \<lparr>sourceDocument = exampleDocument, mappedDocument = exampleDocument,
      mappings = [startingEntry, endingEntry]\<rparr>"

text \<open>Two entries that share a boundary in the source, at 5, and in the generated text, at 15.\<close>

definition contiguousFirst :: "nat Mapping" where
  "contiguousFirst = \<lparr>sourceRange = (0, 5), generatedRange = (10, 15), data = 1\<rparr>"

definition contiguousSecond :: "nat Mapping" where
  "contiguousSecond = \<lparr>sourceRange = (5, 10), generatedRange = (15, 20), data = 2\<rparr>"

definition contiguousMap :: "nat SourceMap" where
  "contiguousMap =
     \<lparr>sourceDocument = exampleDocument, mappedDocument = exampleDocument,
      mappings = [contiguousSecond, contiguousFirst]\<rparr>"

text \<open>An entry whose generated range, from 20 to 22, is shorter than its source range.\<close>

definition shorterTargetMap :: "nat SourceMap" where
  "shorterTargetMap =
     \<lparr>sourceDocument = exampleDocument, mappedDocument = exampleDocument,
      mappings = [\<lparr>sourceRange = (0, 10), generatedRange = (20, 22), data = 1\<rparr>]\<rparr>"

text \<open>An entry whose generated range is shorter than its source range, and one of equal lengths.\<close>

definition shorterGeneratedMap :: "nat SourceMap" where
  "shorterGeneratedMap =
     \<lparr>sourceDocument = exampleDocument, mappedDocument = exampleDocument,
      mappings = [\<lparr>sourceRange = (0, 10), generatedRange = (0, 2), data = 1\<rparr>]\<rparr>"

definition equalLengthMap :: "nat SourceMap" where
  "equalLengthMap =
     \<lparr>sourceDocument = exampleDocument, mappedDocument = exampleDocument,
      mappings = [\<lparr>sourceRange = (8, 12), generatedRange = (0, 4), data = 1\<rparr>]\<rparr>"

definition exampleFile :: "(nat, string) VirtualFile" where
  "exampleFile = VirtualFile ''/example.ts'' ''x'' [] None []"

definition shorterTeleport :: "(nat, string) TeleportSourceMap" where
  "shorterTeleport =
     newTeleportSourceMap exampleFile exampleDocument
       [\<lparr>sourceRange = (0, 10), generatedRange = (20, 22),
         data = \<lparr>toSourceCapabilities = ''B to A'', toGenedCapabilities = ''A to B''\<rparr>\<rparr>]"

definition equalTeleport :: "(nat, string) TeleportSourceMap" where
  "equalTeleport =
     newTeleportSourceMap exampleFile exampleDocument
       [\<lparr>sourceRange = (0, 4), generatedRange = (20, 24),
         data = \<lparr>toSourceCapabilities = ''B to A'', toGenedCapabilities = ''A to B''\<rparr>\<rparr>]"

definition identityShared :: Shared where
  "identityShared =
     \<lparr>getPathOfUri = (\<lambda>u. u), getUriByPath = (\<lambda>p. p), syntaxToLanguageId = (\<lambda>e. e)\<rparr>"

definition exampleEmbeddedMap :: "(nat, string) EmbeddedDocumentSourceMap" where
  "exampleEmbeddedMap =
     newEmbeddedDocumentSourceMap exampleFile exampleFile exampleDocument exampleDocument
       [\<lparr>sourceRange = (8, 12), generatedRange = (0, 4), data = 1\<rparr>]"

definition exampleService :: CallHierarchyService where
  "exampleService = \<lparr>onIncomingCalls = (\<lambda>item. []), onOutgoingCalls = (\<lambda>item. [])\<rparr>"

text \<open>
  A context with two plugins, the first without call hierarchy support, and one embedded
  document, \<open>/example.ts\<close>.
\<close>

definition exampleContext :: "(nat, string) LanguageServiceRuntimeContext" where
  "exampleContext =
     \<lparr>plugins = [\<lparr>callHierarchy = None\<rparr>, \<lparr>callHierarchy = Some exampleService\<rparr>],
      documentsGetMap = (\<lambda>u. if u = ''/example.ts'' then Some exampleEmbeddedMap else None),
      contextShared = identityShared,
      basename = (\<lambda>p. p)\<rparr>"

text \<open>
  An item of the embedded document whose selection range lies in the mapped text and whose
  range does not; one whose selection range does not; one of a file that is not virtual.
\<close>

definition plainItem :: CallHierarchyItem where
  "plainItem =
     CallHierarchyItem ''f'' 12 ''/example.ts'' (exampleRange 0 20) (exampleRange 1 3) None"

definition untraceableItem :: CallHierarchyItem where
  "untraceableItem =
     CallHierarchyItem ''g'' 12 ''/example.ts'' (exampleRange 0 4) (exampleRange 10 11) None"

definition foreignItem :: CallHierarchyItem where
  "foreignItem =
     CallHierarchyItem ''h'' 12 ''/plain.ts'' (exampleRange 0 4) (exampleRange 1 2) None"

definition itemWithData :: "int \<Rightarrow> EmbeddedRef option \<Rightarrow> CallHierarchyItem" where
  "itemWithData i ref =
     CallHierarchyItem ''f'' 12 ''/example.vue'' (exampleRange 8 12) (exampleRange 9 11)
       (Some (PluginCallHierarchyData ''/example.vue'' plainItem i ref))"

text \<open>
  What \<open>toLowerCase\<close> does on a text of ASCII characters: the letters A to Z are lowered.
\<close>

definition asciiLowerCase :: "string \<Rightarrow> string" where
  "asciiLowerCase s =
     map (\<lambda>c. if 65 \<le> (of_char c :: nat) \<and> (of_char c :: nat) \<le> 90
              then char_of (of_char c + (32 :: nat)) else c) s"

text \<open>A registry whose mapper knows no file, and a pug document.\<close>

definition emptyRegistryEnv :: "(nat, string) RegistryEnv" where
  "emptyRegistryEnv =
     \<lparr>shared = identityShared,
      createTextDocument = (\<lambda>u l v t. (lineDocument u t)\<lparr>languageId := l, version := v\<rparr>),
      snapshotText = (\<lambda>s. if s = 0 then ''hello'' else ''world''),
      toLowerCase = asciiLowerCase,
      mapperGet = (\<lambda>n. None),
      getSourceByVirtualFileName = (\<lambda>n. None)\<rparr>"

text \<open>
  A tree of two virtual files, the root with a mapping and a teleport mapping, and a
  registry whose mapper knows the tree as the source of two virtual file names, of which
  \<open>/missing.ts\<close> is the name of no file of the tree.
\<close>

definition exampleTree :: "(nat, string) VirtualFile" where
  "exampleTree =
     VirtualFile ''/example.vue.ts'' ''xy''
       [\<lparr>sourceRange = (0, 2), generatedRange = (0, 2), data = 1\<rparr>]
       (Some [\<lparr>sourceRange = (0, 1), generatedRange = (1, 2),
               data = \<lparr>toSourceCapabilities = ''B to A'', toGenedCapabilities = ''A to B''\<rparr>\<rparr>])
       [exampleFile]"



definition exampleCaller :: CallHierarchyItem where
  "exampleCaller =
     CallHierarchyItem ''caller'' 12 ''/example.vue'' (exampleRange 0 20) (exampleRange 1 3) None"

section \<open>The lookups as filters over the table\<close>

lemma matcingScan_eq:
  "matcingScan ms k from to b =
     map (\<lambda>m. (fst (rangeOf to m) + (k - fst (rangeOf from m))
                + (if b then rangeLength (rangeOf to m) - rangeLength (rangeOf from m) else 0), m))
       (filter (\<lambda>m. containsOffset (rangeOf from m) k) ms)"
  by (cases b; induction ms) (simp_all add: matchOffset_def containsOffset_def rangeLength_def)

lemma matcing_eq:
  "matcing ms k from to b =
     map (\<lambda>m. (fst (rangeOf to m) + (k - fst (rangeOf from m))
                + (if b then rangeLength (rangeOf to m) - rangeLength (rangeOf from m) else 0), m))
       (filter (\<lambda>m. containsOffset (rangeOf from m) k \<and> atBoundary b k (rangeOf from m)) ms
        @ filter (\<lambda>m. containsOffset (rangeOf from m) k \<and> \<not> atBoundary b k (rangeOf from m)) ms)"
  by (simp add: matcing_def matcingScan_eq filter_map comp_def Let_def conj_commute)

lemma toPositionsLoop_eq:
  "toPositionsLoop xs f d b =
     map (\<lambda>x. (positionAt d (fst x + biasShift b (snd x)), snd x))
       (filter (\<lambda>x. f (data (snd x))) xs)"
  by (induction xs) (simp_all add: biasShift_def Let_def)

lemma toPositions_eq:
  "toPositions sm p f fromDoc toDoc from to b =
     map (\<lambda>m. (positionAt toDoc (lookupOffset b from to m (offsetAt fromDoc p)), m))
       (filter (\<lambda>m. containsOffset (rangeOf from m) (offsetAt fromDoc p)
                    \<and> atBoundary (b = right) (offsetAt fromDoc p) (rangeOf from m) \<and> f (data m))
          (mappings sm)
        @ filter (\<lambda>m. containsOffset (rangeOf from m) (offsetAt fromDoc p)
                    \<and> \<not> atBoundary (b = right) (offsetAt fromDoc p) (rangeOf from m)
                    \<and> f (data m))
          (mappings sm))"
  by (simp add: toPositions_def toPositionsLoop_eq matcing_eq filter_map comp_def conj_assoc
      lookupOffset_def)

lemma set_toPositions:
  "set (toPositions sm p f fromDoc toDoc from to b) =
     (\<lambda>m. (positionAt toDoc (lookupOffset b from to m (offsetAt fromDoc p)), m))
       ` {m \<in> set (mappings sm).
            containsOffset (rangeOf from m) (offsetAt fromDoc p) \<and> f (data m)}"
  by (auto simp: toPositions_eq)






lemma firstYield_map_filter_append:
  "firstYield (map g (filter P xs @ filter Q xs)) =
     (case find P xs of Some x \<Rightarrow> Some (g x) | None \<Rightarrow> map_option g (find Q xs))"
proof -
  have a: "firstYield (map g (filter P xs) @ ys) =
      (case find P xs of Some x \<Rightarrow> Some (g x) | None \<Rightarrow> firstYield ys)" for ys
    by (induction xs) simp_all
  have b: "firstYield (map g (filter Q xs)) = map_option g (find Q xs)"
    by (induction xs) simp_all
  show ?thesis using a[of "map g (filter Q xs)"] by (simp add: b split: option.splits)
qed

lemma firstYield_hd: "firstYield xs = (if xs = [] then None else Some (hd xs))"
  by (cases xs) simp_all


lemma firstYield_map: "firstYield (map g xs) = map_option g (firstYield xs)"
  by (cases xs) simp_all

text \<open>
  The first yield of a position lookup: the first accepted entry that contains the offset
  and that the bias prefers, or else the first accepted entry that contains the offset.
\<close>

lemma first_lookup_by_bias:
  "firstYield (toPositions sm p f fromDoc toDoc from to b) =
     (case find (\<lambda>m. containsOffset (rangeOf from m) (offsetAt fromDoc p)
                      \<and> atBoundary (b = right) (offsetAt fromDoc p) (rangeOf from m)
                      \<and> f (data m))
             (mappings sm) of
        Some m \<Rightarrow> Some (positionAt toDoc (lookupOffset b from to m (offsetAt fromDoc p)), m)
      | None \<Rightarrow>
          map_option (\<lambda>m. (positionAt toDoc (lookupOffset b from to m (offsetAt fromDoc p)), m))
            (find (\<lambda>m. containsOffset (rangeOf from m) (offsetAt fromDoc p)
                        \<and> \<not> atBoundary (b = right) (offsetAt fromDoc p) (rangeOf from m)
                        \<and> f (data m))
               (mappings sm)))"
  unfolding toPositions_eq by (rule firstYield_map_filter_append)

lemma toRanges_split:
  "toRanges sm r f api api2 = sameEntryRanges sm r f api api2 @ fallbackRanges sm r f api api2"
  by (simp add: toRanges_def sameEntryRanges_def fallbackRanges_def split: prod.splits)

lemma firstLoop_fst:
  "fst (toRangesFirstLoop xs match r) =
     List.map_filter
       (\<lambda>x. map_option (\<lambda>e. \<lparr>start = fst x, end' = e\<rparr>) (match (end' r) (snd x) right)) xs"
  by (induction xs) (auto simp: List.map_filter_simps split: prod.splits option.splits)

lemma firstLoop_snd:
  "snd (toRangesFirstLoop xs match r) = filter (\<lambda>x. match (end' r) (snd x) right = None) xs"
  by (induction xs) (auto split: prod.splits option.splits)

lemma secondLoop_eq:
  "toRangesSecondLoop failed ends =
     concat (map (\<lambda>a. map (\<lambda>b. \<lparr>start = fst a, end' = fst b\<rparr>) ends) failed)"
  by (induction failed) simp_all

lemma secondLoop_set:
  "set (toRangesSecondLoop failed ends) =
     {\<lparr>start = fst a, end' = fst b\<rparr> | a b. a \<in> set failed \<and> b \<in> set ends}"
  unfolding secondLoop_eq by force


lemma set_fallbackRanges:
  "set (fallbackRanges sm r f api api2) = fallbackPairings sm r f api api2"
  by (auto simp: fallbackRanges_def fallbackPairings_def secondLoop_set firstLoop_snd)




lemma monotone_lineDocument: "monotoneDocument (lineDocument u t)"
  unfolding monotoneDocument_def lineDocument_def pos_le_def by auto

section \<open>Singular and plural lookups\<close>

text \<open>
  Claim C9. Every singular lookup is the head of its plural counterpart: \<open>toSourceRange\<close>
  returns the first range that \<open>toSourceRanges\<close> yields, and nothing when it yields none;
  likewise \<open>toGeneratedRange\<close>, \<open>toSourcePosition\<close> and \<open>toGeneratedPosition\<close>.
\<close>

theorem singular_lookup_is_head_of_plural:
  "toSourceRange sm r f =
     (if toSourceRanges sm r f = [] then None else Some (hd (toSourceRanges sm r f)))
   \<and> toGeneratedRange sm r f =
       (if toGeneratedRanges sm r f = [] then None else Some (hd (toGeneratedRanges sm r f)))
   \<and> toSourcePosition sm p f b =
       (if toSourcePositions sm p f b = [] then None else Some (hd (toSourcePositions sm p f b)))
   \<and> toGeneratedPosition sm p f b =
       (if toGeneratedPositions sm p f b = [] then None
        else Some (hd (toGeneratedPositions sm p f b)))"
  by (simp only: toSourceRange_def toGeneratedRange_def toSourcePosition_def
      toGeneratedPosition_def firstYield_hd)

section \<open>Ranges and inversion\<close>

lemma sameEntry_generated_not_inverted:
  assumes "monotoneDocument (sourceDocument sm)" "monotoneDocument (mappedDocument sm)"
    and "\<not> inverted r"
    and len: "\<forall>m \<in> set (mappings sm).
               rangeLength (sourceRange m) \<le> rangeLength (generatedRange m)"
    and "x \<in> set (sameEntryRanges sm r f toGeneratedPositionsBaseApi matchGeneratedPositionApi)"
  shows "\<not> inverted x"
proof -
  from assms(5) obtain m e where
    m: "(start x, m) \<in> set (toGeneratedPositionsBase sm (start r) f left)"
    and e: "matchGeneratedPosition sm (end' r) m right = Some e" and xe: "end' x = e"
    by (auto simp: sameEntryRanges_def firstLoop_fst List.map_filter_def)
  have le: "offsetAt (sourceDocument sm) (start r) \<le> offsetAt (sourceDocument sm) (end' r)"
    using assms(1,3) by (simp add: monotoneDocument_def inverted_def)
  from m have mm: "m \<in> set (mappings sm)"
    and sx: "start x = positionAt (mappedDocument sm)
      (fst (generatedRange m) + (offsetAt (sourceDocument sm) (start r) - fst (sourceRange m)))"
    by (auto simp: toGeneratedPositionsBase_def set_toPositions lookupOffset_def biasShift_def)
  from e have ex: "e = positionAt (mappedDocument sm)
      (fst (generatedRange m) + (offsetAt (sourceDocument sm) (end' r) - fst (sourceRange m))
       + (rangeLength (generatedRange m) - rangeLength (sourceRange m)))"
    by (auto simp: matchGeneratedPosition_def matchOffset_def rangeLength_def split: if_splits)
  have "fst (generatedRange m) + (offsetAt (sourceDocument sm) (start r) - fst (sourceRange m))
      \<le> fst (generatedRange m) + (offsetAt (sourceDocument sm) (end' r) - fst (sourceRange m))
       + (rangeLength (generatedRange m) - rangeLength (sourceRange m))"
    using le len mm by fastforce
  then show ?thesis
    using assms(2) unfolding inverted_def sx xe ex monotoneDocument_def by blast
qed

lemma sameEntry_source_not_inverted:
  assumes "monotoneDocument (sourceDocument sm)" "monotoneDocument (mappedDocument sm)"
    and "\<not> inverted r"
    and len: "\<forall>m \<in> set (mappings sm).
               rangeLength (generatedRange m) \<le> rangeLength (sourceRange m)"
    and "x \<in> set (sameEntryRanges sm r f toSourcePositionsBaseApi matchSourcePositionApi)"
  shows "\<not> inverted x"
proof -
  from assms(5) obtain m e where
    m: "(start x, m) \<in> set (toSourcePositionsBase sm (start r) f left)"
    and e: "matchSourcePosition sm (end' r) m right = Some e" and xe: "end' x = e"
    by (auto simp: sameEntryRanges_def firstLoop_fst List.map_filter_def)
  have le: "offsetAt (mappedDocument sm) (start r) \<le> offsetAt (mappedDocument sm) (end' r)"
    using assms(2,3) by (simp add: monotoneDocument_def inverted_def)
  from m have mm: "m \<in> set (mappings sm)"
    and sx: "start x = positionAt (sourceDocument sm)
      (fst (sourceRange m) + (offsetAt (mappedDocument sm) (start r) - fst (generatedRange m)))"
    by (auto simp: toSourcePositionsBase_def set_toPositions lookupOffset_def biasShift_def)
  from e have ex: "e = positionAt (sourceDocument sm)
      (fst (sourceRange m) + (offsetAt (mappedDocument sm) (end' r) - fst (generatedRange m))
       + (rangeLength (sourceRange m) - rangeLength (generatedRange m)))"
    by (auto simp: matchSourcePosition_def matchOffset_def rangeLength_def split: if_splits)
  have "fst (sourceRange m) + (offsetAt (mappedDocument sm) (start r) - fst (generatedRange m))
      \<le> fst (sourceRange m) + (offsetAt (mappedDocument sm) (end' r) - fst (generatedRange m))
       + (rangeLength (sourceRange m) - rangeLength (generatedRange m))"
    using le len mm by fastforce
  then show ?thesis
    using assms(1) unfolding inverted_def sx xe ex monotoneDocument_def by blast
qed

text \<open>
  Claim C1, as the code has it. On documents whose conversions keep the order and for an
  input range that is not inverted: when no entry has a destination-side range shorter
  than its origin-side range, every range that \<open>toSourceRanges\<close> or \<open>toGeneratedRanges\<close>
  yields is not inverted or is a fallback pairing. Every fallback pairing is yielded,
  whatever the order of its two ends.
\<close>

theorem toRanges_inverted_only_by_fallback:
  assumes "monotoneDocument (sourceDocument sm)" "monotoneDocument (mappedDocument sm)"
    and "\<not> inverted r"
  shows "((\<forall>m \<in> set (mappings sm).
             rangeLength (generatedRange m) \<le> rangeLength (sourceRange m)) \<longrightarrow>
          (\<forall>x \<in> set (toSourceRanges sm r f).
             \<not> inverted x
             \<or> x \<in> fallbackPairings sm r f toSourcePositionsBaseApi matchSourcePositionApi))
       \<and> ((\<forall>m \<in> set (mappings sm).
             rangeLength (sourceRange m) \<le> rangeLength (generatedRange m)) \<longrightarrow>
          (\<forall>x \<in> set (toGeneratedRanges sm r f).
             \<not> inverted x
             \<or> x \<in> fallbackPairings sm r f toGeneratedPositionsBaseApi
                      matchGeneratedPositionApi))
       \<and> fallbackPairings sm r f toSourcePositionsBaseApi matchSourcePositionApi
           \<subseteq> set (toSourceRanges sm r f)
       \<and> fallbackPairings sm r f toGeneratedPositionsBaseApi matchGeneratedPositionApi
           \<subseteq> set (toGeneratedRanges sm r f)"
  using sameEntry_source_not_inverted[OF assms] sameEntry_generated_not_inverted[OF assms]
  by (auto simp: toSourceRanges_def toGeneratedRanges_def toRanges_split set_fallbackRanges)

theorem toRanges_inverted_only_by_fallback_witness:
  "monotoneDocument (sourceDocument equalLengthMap)
   \<and> monotoneDocument (mappedDocument equalLengthMap)
   \<and> \<not> inverted (exampleRange 0 4)
   \<and> toSourceRanges equalLengthMap (exampleRange 0 4) acceptAll = [exampleRange 8 12]
   \<and> toGeneratedRanges equalLengthMap (exampleRange 8 12) acceptAll = [exampleRange 0 4]
   \<and> \<not> inverted (exampleRange 8 12)"
proof -
  have d: "monotoneDocument (sourceDocument equalLengthMap)"
    "monotoneDocument (mappedDocument equalLengthMap)"
    by (simp_all add: equalLengthMap_def exampleDocument_def monotone_lineDocument)
  have i: "\<not> inverted (exampleRange 0 4)" "\<not> inverted (exampleRange 8 12)"
    by (simp_all add: inverted_def pos_le_def exampleRange_def)
  have s: "toSourceRanges equalLengthMap (exampleRange 0 4) acceptAll = [exampleRange 8 12]"
    by (simp add: toSourceRanges_def toRanges_def toSourcePositionsBase_def toPositions_def
        matcing_def matchSourcePosition_def matchOffset_def atBoundary_def equalLengthMap_def
        exampleDocument_def lineDocument_def acceptAll_def exampleRange_def)
  have g: "toGeneratedRanges equalLengthMap (exampleRange 8 12) acceptAll = [exampleRange 0 4]"
    by (simp add: toGeneratedRanges_def toRanges_def toGeneratedPositionsBase_def
        toPositions_def matcing_def matchGeneratedPosition_def matchOffset_def atBoundary_def
        equalLengthMap_def exampleDocument_def lineDocument_def acceptAll_def exampleRange_def)
  show ?thesis
    using toRanges_inverted_only_by_fallback[OF d i(1), of acceptAll] d i s g by simp
qed

text \<open>
  The claim C1 as stated fails. In \<open>crossEntryMap\<close> the source range from 1 to 6 starts in
  the first entry, which does not contain its end; the fallback pairs the start, generated
  offset 11, with the end found in the second entry, generated offset 1, and
  \<open>toGeneratedRange\<close> returns the inverted range. In \<open>shorterTargetMap\<close> the source range
  from 3 to 5 lies in the one entry, whose generated range is shorter than its source
  range, and the same-entry step returns the inverted range from 23 to 17. An inverted
  input range comes back inverted from the same-entry step.
\<close>

theorem toRanges_fallback_inverted:
  "\<not> inverted (exampleRange 1 6)
   \<and> toGeneratedRange crossEntryMap (exampleRange 1 6) acceptAll = Some (exampleRange 11 1)
   \<and> inverted (exampleRange 11 1)
   \<and> \<not> inverted (exampleRange 3 5)
   \<and> toGeneratedRange shorterTargetMap (exampleRange 3 5) acceptAll = Some (exampleRange 23 17)
   \<and> inverted (exampleRange 23 17)
   \<and> toGeneratedRange crossEntryMap (exampleRange 1 0) acceptAll = Some (exampleRange 11 10)
   \<and> inverted (exampleRange 11 10)"
  by (simp add: toGeneratedRange_def toGeneratedRanges_def toRanges_def
      toGeneratedPositionsBase_def toPositions_def matcing_def matchGeneratedPosition_def
      matchOffset_def atBoundary_def crossEntryMap_def shorterTargetMap_def exampleDocument_def
      lineDocument_def acceptAll_def inverted_def pos_le_def exampleRange_def)

section \<open>Positions at a shared boundary\<close>

text \<open>
  Claim C2. For a position at an offset that the origin-side ranges of entries contain,
  \<open>toGeneratedPosition\<close> with \<open>left\<close> resolves through the first accepted entry, in table
  order, whose source range ends at the offset, and with \<open>right\<close> through the first
  accepted entry whose source range starts at the offset, whatever the order of the two
  entries in the table; symmetrically \<open>toSourcePosition\<close> with the generated ranges. The
  position is the one the code computes for the entry: with \<open>left\<close> the left-based shift,
  with \<open>right\<close> the start of the generated range, or the start of the source range plus
  twice the difference of the lengths.
\<close>

theorem boundary_bias_selects_entry:
  "(find (\<lambda>m. containsOffset (sourceRange m) (offsetAt (sourceDocument sm) p)
              \<and> snd (sourceRange m) = offsetAt (sourceDocument sm) p \<and> f (data m))
      (mappings sm) = Some ending \<longrightarrow>
      firstYield (toGeneratedPositionsBase sm p f left)
        = Some (positionAt (mappedDocument sm)
                  (fst (generatedRange ending)
                   + (offsetAt (sourceDocument sm) p - fst (sourceRange ending))), ending)
      \<and> toGeneratedPosition sm p f left
        = Some (positionAt (mappedDocument sm)
                  (fst (generatedRange ending)
                   + (offsetAt (sourceDocument sm) p - fst (sourceRange ending)))))
   \<and> (find (\<lambda>m. containsOffset (sourceRange m) (offsetAt (sourceDocument sm) p)
              \<and> fst (sourceRange m) = offsetAt (sourceDocument sm) p \<and> f (data m))
      (mappings sm) = Some starting \<longrightarrow>
      firstYield (toGeneratedPositionsBase sm p f right)
        = Some (positionAt (mappedDocument sm) (fst (generatedRange starting)), starting)
      \<and> toGeneratedPosition sm p f right
        = Some (positionAt (mappedDocument sm) (fst (generatedRange starting))))
   \<and> (find (\<lambda>m. containsOffset (generatedRange m) (offsetAt (mappedDocument sm) q)
              \<and> snd (generatedRange m) = offsetAt (mappedDocument sm) q \<and> f (data m))
      (mappings sm) = Some ending' \<longrightarrow>
      firstYield (toSourcePositionsBase sm q f left)
        = Some (positionAt (sourceDocument sm)
                  (fst (sourceRange ending')
                   + (offsetAt (mappedDocument sm) q - fst (generatedRange ending'))), ending')
      \<and> toSourcePosition sm q f left
        = Some (positionAt (sourceDocument sm)
                  (fst (sourceRange ending')
                   + (offsetAt (mappedDocument sm) q - fst (generatedRange ending')))))
   \<and> (find (\<lambda>m. containsOffset (generatedRange m) (offsetAt (mappedDocument sm) q)
              \<and> fst (generatedRange m) = offsetAt (mappedDocument sm) q \<and> f (data m))
      (mappings sm) = Some starting' \<longrightarrow>
      firstYield (toSourcePositionsBase sm q f right)
        = Some (positionAt (sourceDocument sm)
                  (fst (sourceRange starting')
                   + 2 * (rangeLength (sourceRange starting')
                          - rangeLength (generatedRange starting'))), starting')
      \<and> toSourcePosition sm q f right
        = Some (positionAt (sourceDocument sm)
                  (fst (sourceRange starting')
                   + 2 * (rangeLength (sourceRange starting')
                          - rangeLength (generatedRange starting')))))"
proof -
  have g: "firstYield (toGeneratedPositionsBase sm p f b) = Some (x, m) \<Longrightarrow>
           toGeneratedPosition sm p f b = Some x" for b x m
    by (simp add: toGeneratedPosition_def toGeneratedPositions_def firstYield_map)
  have s: "firstYield (toSourcePositionsBase sm q f b) = Some (x, m) \<Longrightarrow>
           toSourcePosition sm q f b = Some x" for b x m
    by (simp add: toSourcePosition_def toSourcePositions_def firstYield_map)
  have 1: "firstYield (toGeneratedPositionsBase sm p f left)
        = Some (positionAt (mappedDocument sm)
                  (fst (generatedRange ending)
                   + (offsetAt (sourceDocument sm) p - fst (sourceRange ending))), ending)"
    if "find (\<lambda>m. containsOffset (sourceRange m) (offsetAt (sourceDocument sm) p)
              \<and> snd (sourceRange m) = offsetAt (sourceDocument sm) p \<and> f (data m))
      (mappings sm) = Some ending"
    using that
    by (simp add: toGeneratedPositionsBase_def first_lookup_by_bias atBoundary_def
        lookupOffset_def biasShift_def)
  have 2: "firstYield (toGeneratedPositionsBase sm p f right)
        = Some (positionAt (mappedDocument sm) (fst (generatedRange starting)), starting)"
    if h: "find (\<lambda>m. containsOffset (sourceRange m) (offsetAt (sourceDocument sm) p)
              \<and> fst (sourceRange m) = offsetAt (sourceDocument sm) p \<and> f (data m))
      (mappings sm) = Some starting"
  proof -
    from h have "fst (sourceRange starting) = offsetAt (sourceDocument sm) p"
      by (auto simp: find_Some_iff)
    then have off: "lookupOffset right sourceRangeKey generatedRangeKey starting
                      (offsetAt (sourceDocument sm) p) = fst (generatedRange starting)"
      by (simp add: lookupOffset_def biasShift_def rangeLength_def)
    show ?thesis using h
      by (simp add: toGeneratedPositionsBase_def first_lookup_by_bias atBoundary_def off)
  qed
  have 3: "firstYield (toSourcePositionsBase sm q f left)
        = Some (positionAt (sourceDocument sm)
                  (fst (sourceRange ending')
                   + (offsetAt (mappedDocument sm) q - fst (generatedRange ending'))), ending')"
    if "find (\<lambda>m. containsOffset (generatedRange m) (offsetAt (mappedDocument sm) q)
              \<and> snd (generatedRange m) = offsetAt (mappedDocument sm) q \<and> f (data m))
      (mappings sm) = Some ending'"
    using that
    by (simp add: toSourcePositionsBase_def first_lookup_by_bias atBoundary_def
        lookupOffset_def biasShift_def)
  have 4: "firstYield (toSourcePositionsBase sm q f right)
        = Some (positionAt (sourceDocument sm)
                  (fst (sourceRange starting')
                   + 2 * (rangeLength (sourceRange starting')
                          - rangeLength (generatedRange starting'))), starting')"
    if h: "find (\<lambda>m. containsOffset (generatedRange m) (offsetAt (mappedDocument sm) q)
              \<and> fst (generatedRange m) = offsetAt (mappedDocument sm) q \<and> f (data m))
      (mappings sm) = Some starting'"
  proof -
    from h have "fst (generatedRange starting') = offsetAt (mappedDocument sm) q"
      by (auto simp: find_Some_iff)
    then have off: "lookupOffset right generatedRangeKey sourceRangeKey starting'
                      (offsetAt (mappedDocument sm) q)
        = fst (sourceRange starting')
          + 2 * (rangeLength (sourceRange starting') - rangeLength (generatedRange starting'))"
      by (simp add: lookupOffset_def biasShift_def rangeLength_def)
    show ?thesis using h
      by (simp add: toSourcePositionsBase_def first_lookup_by_bias atBoundary_def off)
  qed
  show ?thesis using 1 2 3 4 g s by blast
qed

theorem boundary_bias_selects_entry_witness:
  "firstYield (toGeneratedPositionsBase adjacentMap \<lparr>line = 0, character = 5\<rparr> acceptAll left)
     = Some (\<lparr>line = 0, character = 5\<rparr>, endingEntry)
   \<and> firstYield (toGeneratedPositionsBase adjacentMap \<lparr>line = 0, character = 5\<rparr> acceptAll right)
     = Some (\<lparr>line = 0, character = 20\<rparr>, startingEntry)
   \<and> firstYield (toGeneratedPositionsBase adjacentMapReversed \<lparr>line = 0, character = 5\<rparr>
        acceptAll left)
     = Some (\<lparr>line = 0, character = 5\<rparr>, endingEntry)
   \<and> firstYield (toGeneratedPositionsBase adjacentMapReversed \<lparr>line = 0, character = 5\<rparr>
        acceptAll right)
     = Some (\<lparr>line = 0, character = 20\<rparr>, startingEntry)
   \<and> firstYield (toSourcePositionsBase contiguousMap \<lparr>line = 0, character = 15\<rparr> acceptAll left)
     = Some (\<lparr>line = 0, character = 5\<rparr>, contiguousFirst)
   \<and> firstYield (toSourcePositionsBase contiguousMap \<lparr>line = 0, character = 15\<rparr> acceptAll right)
     = Some (\<lparr>line = 0, character = 5\<rparr>, contiguousSecond)"
  using boundary_bias_selects_entry[where sm = adjacentMap
        and p = "\<lparr>line = 0, character = 5\<rparr>" and f = acceptAll
        and ending = endingEntry and starting = startingEntry
        and q = "\<lparr>line = 0, character = 15\<rparr>"
        and ending' = contiguousFirst and starting' = contiguousSecond]
    boundary_bias_selects_entry[where sm = adjacentMapReversed
        and p = "\<lparr>line = 0, character = 5\<rparr>" and f = acceptAll
        and ending = endingEntry and starting = startingEntry
        and q = "\<lparr>line = 0, character = 15\<rparr>"
        and ending' = contiguousFirst and starting' = contiguousSecond]
    boundary_bias_selects_entry[where sm = contiguousMap
        and p = "\<lparr>line = 0, character = 5\<rparr>" and f = acceptAll
        and ending = contiguousFirst and starting = contiguousSecond
        and q = "\<lparr>line = 0, character = 15\<rparr>"
        and ending' = contiguousFirst and starting' = contiguousSecond]
  by (simp add: adjacentMap_def adjacentMapReversed_def contiguousMap_def endingEntry_def
      startingEntry_def contiguousFirst_def contiguousSecond_def exampleDocument_def
      lineDocument_def containsOffset_def acceptAll_def rangeLength_def)

section \<open>Round trip through one entry\<close>

text \<open>
  Claim C3, as the code and the modelled \<open>matchOffset\<close> have it. For an entry and an
  offset \<open>k\<close> strictly inside its source range whose translation still lies in the
  generated range, on documents whose conversions invert each other at the two offsets,
  translating \<open>k\<close> to the generated side through the entry and the result back through the
  same entry returns \<open>k\<close>.
\<close>

theorem entry_round_trip:
  assumes "fst (sourceRange m) < k" "k < snd (sourceRange m)"
    and "fst (generatedRange m) + (k - fst (sourceRange m)) \<le> snd (generatedRange m)"
    and "offsetAt (sourceDocument sm) (positionAt (sourceDocument sm) k) = k"
    and "offsetAt (mappedDocument sm)
           (positionAt (mappedDocument sm) (fst (generatedRange m) + (k - fst (sourceRange m))))
         = fst (generatedRange m) + (k - fst (sourceRange m))"
  shows "roundTripThroughEntry sm (positionAt (sourceDocument sm) k) m
           = Some (positionAt (sourceDocument sm) k)
       \<and> (mappings sm = [m] \<longrightarrow>
            roundTripLookup sm (positionAt (sourceDocument sm) k)
              = Some (positionAt (sourceDocument sm) k))"
  using assms
  by (simp add: roundTripThroughEntry_def roundTripLookup_def matchGeneratedPosition_def
      matchSourcePosition_def matchOffset_def toGeneratedPosition_def toGeneratedPositions_def
      toGeneratedPositionsBase_def toSourcePosition_def toSourcePositions_def
      toSourcePositionsBase_def toPositions_def matcing_def atBoundary_def acceptAll_def)

theorem entry_round_trip_witness:
  "fst (sourceRange (hd (mappings equalLengthMap))) < 9
   \<and> 9 < snd (sourceRange (hd (mappings equalLengthMap)))
   \<and> roundTripThroughEntry equalLengthMap \<lparr>line = 0, character = 9\<rparr>
        (hd (mappings equalLengthMap))
       = Some \<lparr>line = 0, character = 9\<rparr>
   \<and> roundTripLookup equalLengthMap \<lparr>line = 0, character = 9\<rparr>
       = Some \<lparr>line = 0, character = 9\<rparr>"
  using entry_round_trip[of "hd (mappings equalLengthMap)" 9 equalLengthMap]
  by (simp add: equalLengthMap_def exampleDocument_def lineDocument_def)

text \<open>
  The claim C3 as stated fails. The entry of \<open>shorterGeneratedMap\<close> maps the source range
  from 0 to 10 to the generated range from 0 to 2. Offset 5 is strictly inside the source
  range, and its round trip through the entry gives nothing: the translation is generated
  offset 5, which the generated range does not contain, so that nothing leads back.
\<close>

theorem entry_round_trip_shorter_generated:
  "fst (sourceRange (hd (mappings shorterGeneratedMap))) < 5
   \<and> 5 < snd (sourceRange (hd (mappings shorterGeneratedMap)))
   \<and> roundTripThroughEntry shorterGeneratedMap \<lparr>line = 0, character = 5\<rparr>
        (hd (mappings shorterGeneratedMap)) = None
   \<and> roundTripLookup shorterGeneratedMap \<lparr>line = 0, character = 5\<rparr> = None"
  by (simp add: shorterGeneratedMap_def exampleDocument_def lineDocument_def
      roundTripThroughEntry_def roundTripLookup_def
      matchGeneratedPosition_def matchSourcePosition_def matchOffset_def
      toGeneratedPosition_def toGeneratedPositions_def toGeneratedPositionsBase_def
      toSourcePosition_def toSourcePositions_def toSourcePositionsBase_def toPositions_def
      matcing_def atBoundary_def acceptAll_def)

section \<open>Teleports\<close>

lemma set_findTeleports:
  "set (findTeleports (newTeleportSourceMap f doc ms) pos) =
     (\<lambda>m. (positionAt doc (fst (generatedRange m) + (offsetAt doc pos - fst (sourceRange m))),
            toGenedCapabilities (data m)))
       ` {m \<in> set ms. containsOffset (sourceRange m) (offsetAt doc pos)}
     \<union> (\<lambda>m. (positionAt doc (fst (sourceRange m) + (offsetAt doc pos - fst (generatedRange m))),
              toSourceCapabilities (data m)))
         ` {m \<in> set ms. containsOffset (generatedRange m) (offsetAt doc pos)}"
  by (simp add: findTeleports_def newTeleportSourceMap_def toGeneratedPositionsBase_def
      toSourcePositionsBase_def set_toPositions lookupOffset_def biasShift_def acceptAll_def
      image_image)

text \<open>
  Claim C4, as the code and the modelled scan have it. A teleport entry relates range A,
  its \<open>sourceRange\<close>, to range B, its \<open>generatedRange\<close>. For a position in A whose
  translation \<open>B.start + (offset - A.start)\<close> lies in B, \<open>findTeleports\<close> yields the
  translated position with the A-to-B capabilities \<open>toGenedCapabilities\<close>; for a position
  in B whose translation lies in A, the translated position with the B-to-A capabilities
  \<open>toSourceCapabilities\<close>. Every pair it yields is of one of these two kinds, each with the
  capabilities of its own direction.
\<close>

theorem findTeleports_directions:
  assumes "m \<in> set ms"
  shows "(containsOffset (sourceRange m) (offsetAt doc pos)
          \<and> containsOffset (generatedRange m)
              (fst (generatedRange m) + (offsetAt doc pos - fst (sourceRange m))) \<longrightarrow>
            (positionAt doc (fst (generatedRange m) + (offsetAt doc pos - fst (sourceRange m))),
             toGenedCapabilities (data m))
            \<in> set (findTeleports (newTeleportSourceMap f doc ms) pos))
       \<and> (containsOffset (generatedRange m) (offsetAt doc pos)
          \<and> containsOffset (sourceRange m)
              (fst (sourceRange m) + (offsetAt doc pos - fst (generatedRange m))) \<longrightarrow>
            (positionAt doc (fst (sourceRange m) + (offsetAt doc pos - fst (generatedRange m))),
             toSourceCapabilities (data m))
            \<in> set (findTeleports (newTeleportSourceMap f doc ms) pos))
       \<and> (\<forall>y \<in> set (findTeleports (newTeleportSourceMap f doc ms) pos).
            \<exists>e \<in> set ms.
              (containsOffset (sourceRange e) (offsetAt doc pos)
               \<and> y = (positionAt doc
                        (fst (generatedRange e) + (offsetAt doc pos - fst (sourceRange e))),
                      toGenedCapabilities (data e)))
              \<or> (containsOffset (generatedRange e) (offsetAt doc pos)
                  \<and> y = (positionAt doc
                           (fst (sourceRange e) + (offsetAt doc pos - fst (generatedRange e))),
                         toSourceCapabilities (data e))))"
  using assms unfolding set_findTeleports by auto

theorem findTeleports_directions_witness:
  "(\<lparr>line = 0, character = 22\<rparr>, ''A to B'')
     \<in> set (findTeleports equalTeleport \<lparr>line = 0, character = 2\<rparr>)
   \<and> (\<lparr>line = 0, character = 1\<rparr>, ''B to A'')
       \<in> set (findTeleports equalTeleport \<lparr>line = 0, character = 21\<rparr>)"
proof -
  let ?m = "\<lparr>sourceRange = (0, 4), generatedRange = (20, 24),
             data = \<lparr>toSourceCapabilities = ''B to A'', toGenedCapabilities = ''A to B''\<rparr>\<rparr>"
  have a: "(\<lparr>line = 0, character = 22\<rparr>, ''A to B'')
     \<in> set (findTeleports equalTeleport \<lparr>line = 0, character = 2\<rparr>)"
    using findTeleports_directions[of ?m "[?m]" exampleDocument "\<lparr>line = 0, character = 2\<rparr>"
        exampleFile]
    by (simp add: equalTeleport_def containsOffset_def exampleDocument_def lineDocument_def)
  have b: "(\<lparr>line = 0, character = 1\<rparr>, ''B to A'')
       \<in> set (findTeleports equalTeleport \<lparr>line = 0, character = 21\<rparr>)"
    using findTeleports_directions[of ?m "[?m]" exampleDocument "\<lparr>line = 0, character = 21\<rparr>"
        exampleFile]
    by (simp add: equalTeleport_def containsOffset_def exampleDocument_def lineDocument_def)
  show ?thesis using a b by simp
qed

text \<open>
  The claim C4 as stated fails. The entry of \<open>shorterTeleport\<close> relates range A from 0 to 10
  to range B from 20 to 22. At offset 5, inside A, \<open>findTeleports\<close> yields no position
  inside B: the translation is offset 25.
\<close>

theorem findTeleports_outside_target_range:
  "containsOffset (0, 10) (offsetAt exampleDocument \<lparr>line = 0, character = 5\<rparr>)
   \<and> yieldsInside exampleDocument (20, 22)
        (findTeleports shorterTeleport \<lparr>line = 0, character = 5\<rparr>) = []"
  by (simp add: yieldsInside_def findTeleports_def shorterTeleport_def newTeleportSourceMap_def
      toGeneratedPositionsBase_def toSourcePositionsBase_def toPositions_def matcing_def
      matchOffset_def atBoundary_def containsOffset_def exampleDocument_def lineDocument_def acceptAll_def)

section \<open>Transformation of call hierarchy items\<close>

lemma example_selection:
  "toSourceRange exampleEmbeddedMap (exampleRange 1 3) acceptAll = Some (exampleRange 9 11)"
  by (simp add: toSourceRange_def toSourceRanges_def toRanges_def toSourcePositionsBase_def
      toPositions_def matcing_def atBoundary_def matchSourcePosition_def matchOffset_def
      exampleEmbeddedMap_def
      newEmbeddedDocumentSourceMap_def exampleDocument_def lineDocument_def acceptAll_def
      exampleRange_def)

lemma example_range_absent:
  "toSourceRange exampleEmbeddedMap (exampleRange 0 20) acceptAll = None"
  by (simp add: toSourceRange_def toSourceRanges_def toRanges_def toSourcePositionsBase_def
      toPositions_def matcing_def atBoundary_def matchSourcePosition_def matchOffset_def
      exampleEmbeddedMap_def
      newEmbeddedDocumentSourceMap_def exampleDocument_def lineDocument_def acceptAll_def
      exampleRange_def)

lemma example_selection_absent:
  "toSourceRange exampleEmbeddedMap (exampleRange 10 11) acceptAll = None"
  by (simp add: toSourceRange_def toSourceRanges_def toRanges_def toSourcePositionsBase_def
      toPositions_def matcing_def atBoundary_def matchSourcePosition_def matchOffset_def
      exampleEmbeddedMap_def
      newEmbeddedDocumentSourceMap_def exampleDocument_def lineDocument_def acceptAll_def
      exampleRange_def)

text \<open>
  Claim C5, as the code has it. \<open>transformCallHierarchyItem\<close> passes an item of a file
  without source map unchanged; it returns nothing when the selection range of the item
  has no source correspondence; otherwise it returns an item, with the selection range
  mapped, the call-site ranges that have a correspondence (the others are left out), and
  as range the mapped range or, when the range has no correspondence, the whole source
  document. The result transform of \<open>doPrepare\<close> keeps exactly the items that have a
  result, and the result transform of auto insert returns nothing for an edit whose range
  has no source correspondence. No case raises an error.
\<close>

theorem transformCallHierarchyItem_results:
  "(documentsGetMap ctx (itemUri item) = None \<longrightarrow>
      transformCallHierarchyItem ctx item ranges = Some (item, ranges))
   \<and> (documentsGetMap ctx (itemUri item) = Some m
        \<and> toSourceRange m (itemSelectionRange item) acceptAll = None \<longrightarrow>
      transformCallHierarchyItem ctx item ranges = None)
   \<and> (documentsGetMap ctx (itemUri item) = Some m
        \<and> toSourceRange m (itemSelectionRange item) acceptAll = Some selection \<longrightarrow>
      (\<exists>vueItem.
         transformCallHierarchyItem ctx item ranges
           = Some (vueItem, List.map_filter (\<lambda>r. toSourceRange m r acceptAll) ranges)
         \<and> itemSelectionRange vueItem = selection
         \<and> itemRange vueItem =
             (case toSourceRange m (itemRange item) acceptAll of
                Some r \<Rightarrow> r
              | None \<Rightarrow> wholeDocumentRange (sourceDocument m))))
   \<and> set (doPrepareTransform ctx items (Some m')) =
       {vueItem. \<exists>it \<in> set items. \<exists>rs. transformCallHierarchyItem ctx it [] = Some (vueItem, rs)}
   \<and> (toSourceRange m editRange acceptAll = None \<longrightarrow>
        autoInsertTransform (InsertTextEdit editRange newText) m = None)"
proof -
  have "set (doPrepareTransform ctx items (Some m')) =
       {vueItem. \<exists>it \<in> set items. \<exists>rs. transformCallHierarchyItem ctx it [] = Some (vueItem, rs)}"
    by (force simp: doPrepareTransform_def List.map_filter_def)
  then show ?thesis
    by (auto simp: transformCallHierarchyItem_def wholeDocumentRange_def Let_def
        autoInsertTransform_def split: option.splits)
qed

theorem transformCallHierarchyItem_results_witness:
  "transformCallHierarchyItem exampleContext foreignItem [exampleRange 0 1]
     = Some (foreignItem, [exampleRange 0 1])
   \<and> transformCallHierarchyItem exampleContext untraceableItem [exampleRange 0 1] = None
   \<and> (\<exists>vueItem.
        transformCallHierarchyItem exampleContext plainItem [exampleRange 1 3, exampleRange 10 11]
          = Some (vueItem, [exampleRange 9 11])
        \<and> itemSelectionRange vueItem = exampleRange 9 11
        \<and> itemRange vueItem = wholeDocumentRange exampleDocument)
   \<and> autoInsertTransform (InsertTextEdit (exampleRange 10 11) ''x'') exampleEmbeddedMap = None"
  using transformCallHierarchyItem_results[where ctx = exampleContext and item = foreignItem
          and ranges = "[exampleRange 0 1]"]
    transformCallHierarchyItem_results[where ctx = exampleContext and item = untraceableItem
          and ranges = "[exampleRange 0 1]" and m = exampleEmbeddedMap
          and editRange = "exampleRange 10 11" and newText = "''x''"]
    transformCallHierarchyItem_results[where ctx = exampleContext and item = plainItem
          and ranges = "[exampleRange 1 3, exampleRange 10 11]"
          and m = exampleEmbeddedMap and selection = "exampleRange 9 11"]
  by (simp add: exampleContext_def foreignItem_def untraceableItem_def plainItem_def
      example_selection example_selection_absent example_range_absent List.map_filter_simps)
     (simp add: exampleEmbeddedMap_def newEmbeddedDocumentSourceMap_def)

text \<open>
  The claim C5 as stated fails. The range of \<open>plainItem\<close> has no source correspondence in
  the map of its document, and the item is not dropped: \<open>transformCallHierarchyItem\<close>
  returns it with the whole source document, offsets 0 to 30, as its range, and the result
  transform of \<open>doPrepare\<close> keeps it.
\<close>

theorem transformCallHierarchyItem_keeps_untraceable_range:
  "toSourceRange exampleEmbeddedMap (itemRange plainItem) acceptAll = None
   \<and> transformCallHierarchyItem exampleContext plainItem []
       = Some (CallHierarchyItem ''f'' 12 ''file:///example'' (exampleRange 0 30)
                 (exampleRange 9 11) None, [])
   \<and> doPrepareTransform exampleContext [plainItem] (Some exampleEmbeddedMap)
       = [CallHierarchyItem ''f'' 12 ''file:///example'' (exampleRange 0 30) (exampleRange 9 11)
            None]"
proof -
  have t: "transformCallHierarchyItem exampleContext plainItem []
       = Some (CallHierarchyItem ''f'' 12 ''file:///example'' (exampleRange 0 30)
                 (exampleRange 9 11) None, [])"
    by (simp add: transformCallHierarchyItem_def exampleContext_def plainItem_def
        example_selection example_range_absent List.map_filter_simps identityShared_def)
       (simp add: exampleEmbeddedMap_def newEmbeddedDocumentSourceMap_def exampleDocument_def
        lineDocument_def exampleRange_def)
  show ?thesis
    by (simp add: t doPrepareTransform_def List.map_filter_simps)
       (simp add: plainItem_def example_range_absent)
qed

section \<open>Absent results\<close>



section \<open>Call hierarchy queries that reach no plugin\<close>

lemma withCallHierarchy_nil [simp]:
  "withCallHierarchyIncomingCalls [] = []" "withCallHierarchyOutgoingCalls [] = []"
  by (simp_all add: withCallHierarchyIncomingCalls_def withCallHierarchyOutgoingCalls_def)

text \<open>
  Claim C10. For an item without data payload, or whose plugin id resolves to no plugin,
  or whose plugin has no call hierarchy service, or whose recorded embedded document has
  no source map, \<open>getIncomingCalls\<close> and \<open>getOutgoingCalls\<close> return the empty list and send
  no query to any plugin.
\<close>

theorem calls_empty_without_plugin_query:
  "(itemData item = None \<longrightarrow>
      getIncomingCalls ctx item = ([], []) \<and> getOutgoingCalls ctx item = ([], []))
   \<and> (itemData item = Some d \<and> arrayGet (plugins ctx) (pluginId d) = None \<longrightarrow>
      getIncomingCalls ctx item = ([], []) \<and> getOutgoingCalls ctx item = ([], []))
   \<and> (itemData item = Some d \<and> arrayGet (plugins ctx) (pluginId d) = Some plugin
        \<and> callHierarchy plugin = None \<longrightarrow>
      getIncomingCalls ctx item = ([], []) \<and> getOutgoingCalls ctx item = ([], []))
   \<and> (itemData item = Some d \<and> dataMap d = Some ref
        \<and> documentsGetMap ctx (embeddedDocumentUri ref) = None \<longrightarrow>
      getIncomingCalls ctx item = ([], []) \<and> getOutgoingCalls ctx item = ([], []))"
  by (auto simp: getIncomingCalls_def getOutgoingCalls_def split: option.splits)

theorem calls_empty_without_plugin_query_witness:
  "getIncomingCalls exampleContext plainItem = ([], [])
   \<and> getOutgoingCalls exampleContext plainItem = ([], [])
   \<and> getIncomingCalls exampleContext (itemWithData 7 None) = ([], [])
   \<and> getOutgoingCalls exampleContext (itemWithData 7 None) = ([], [])
   \<and> getIncomingCalls exampleContext (itemWithData 0 None) = ([], [])
   \<and> getOutgoingCalls exampleContext (itemWithData 0 None) = ([], [])
   \<and> getIncomingCalls exampleContext
        (itemWithData 1 (Some \<lparr>embeddedDocumentUri = ''/other.ts''\<rparr>)) = ([], [])
   \<and> getOutgoingCalls exampleContext
        (itemWithData 1 (Some \<lparr>embeddedDocumentUri = ''/other.ts''\<rparr>)) = ([], [])"
  using calls_empty_without_plugin_query[where item = plainItem and ctx = exampleContext]
    calls_empty_without_plugin_query[where item = "itemWithData 7 None"
          and ctx = exampleContext
          and d = "PluginCallHierarchyData ''/example.vue'' plainItem 7 None"]
    calls_empty_without_plugin_query[where item = "itemWithData 0 None"
          and ctx = exampleContext
          and d = "PluginCallHierarchyData ''/example.vue'' plainItem 0 None"
          and plugin = "\<lparr>callHierarchy = None\<rparr>"]
    calls_empty_without_plugin_query[where
          item = "itemWithData 1 (Some \<lparr>embeddedDocumentUri = ''/other.ts''\<rparr>)"
          and ctx = exampleContext
          and d = "PluginCallHierarchyData ''/example.vue'' plainItem 1
                     (Some \<lparr>embeddedDocumentUri = ''/other.ts''\<rparr>)"
          and ref = "\<lparr>embeddedDocumentUri = ''/other.ts''\<rparr>"]
  by (simp add: plainItem_def itemWithData_def exampleContext_def arrayGet_def)

section \<open>The registry cache\<close>

lemma teleportFor_mono:
  "teleportFor env maps x \<Longrightarrow> set maps \<subseteq> set maps2 \<Longrightarrow> teleportFor env maps2 x"
  unfolding teleportFor_def by blast

lemma embedLoop_props:
  "embedLoop env root doc fs v maps tps = (v', maps', tps') \<Longrightarrow>
     v' = v + int (length fs)
     \<and> set maps \<subseteq> set maps'
     \<and> map fst maps' = map fst maps @ fs
     \<and> (\<forall>x \<in> set maps'. x \<in> set maps \<or> embeddedMapFor env root doc x)
     \<and> map fst tps' = map fst tps @ filter (\<lambda>f. teleportMappings f \<noteq> None) fs
     \<and> (\<forall>x \<in> set tps'. x \<in> set tps \<or> teleportFor env maps' x)"
proof (induction fs arbitrary: v maps tps)
  case Nil
  then show ?case by simp
next
  case (Cons f fs)
  let ?doc = "virtualFileDocumentOf env f v"
  let ?maps1 = "maps @ [(f, newEmbeddedDocumentSourceMap root f doc ?doc (fileMappings f))]"
  let ?tps1 = "(case teleportMappings f of None \<Rightarrow> tps
                | Some tms \<Rightarrow> tps @ [(f, newTeleportSourceMap f ?doc tms)])"
  from Cons.prems have run: "embedLoop env root doc fs (v + 1) ?maps1 ?tps1 = (v', maps', tps')"
    by (cases "teleportMappings f") (simp_all add: Let_def virtualFileDocumentOf_def)
  note ih = Cons.IH[OF run]
  have sub: "set ?maps1 \<subseteq> set maps'" using ih by blast
  have m1: "embeddedMapFor env root doc
              (f, newEmbeddedDocumentSourceMap root f doc ?doc (fileMappings f))"
    unfolding embeddedMapFor_def by auto
  have t1: "teleportFor env maps' (f, newTeleportSourceMap f ?doc tms)"
    if "teleportMappings f = Some tms" for tms
  proof -
    have "(f, newEmbeddedDocumentSourceMap root f doc ?doc (fileMappings f)) \<in> set maps'"
      using sub by auto
    moreover have "mappedDocument (newEmbeddedDocumentSourceMap root f doc ?doc (fileMappings f))
        = ?doc" by (simp add: newEmbeddedDocumentSourceMap_def)
    ultimately show ?thesis using that unfolding teleportFor_def by force
  qed
  have a: "v' = v + int (length (f # fs))" using ih by simp
  have b: "set maps \<subseteq> set maps'" using sub by auto
  have c: "map fst maps' = map fst maps @ f # fs" using ih by simp
  have d: "\<forall>x \<in> set maps'. x \<in> set maps \<or> embeddedMapFor env root doc x"
    using ih m1 by auto
  have e: "map fst tps' = map fst tps @ filter (\<lambda>f. teleportMappings f \<noteq> None) (f # fs)"
    using ih by (cases "teleportMappings f") simp_all
  have g: "\<forall>x \<in> set tps'. x \<in> set tps \<or> teleportFor env maps' x"
  proof
    fix x assume "x \<in> set tps'"
    then have "x \<in> set ?tps1 \<or> teleportFor env maps' x" using ih by blast
    then show "x \<in> set tps \<or> teleportFor env maps' x"
      using t1 by (cases "teleportMappings f") auto
  qed
  show ?case using a b c d e g by blast
qed

lemma getMaps_hit:
  "snapshotsToMaps st s = Some b \<Longrightarrow> getMaps env st fName s root = (b, st)"
  by (simp add: getMaps_def)

lemma getMaps_caches:
  "snapshotsToMaps (snd (getMaps env st fName s root)) s = Some (fst (getMaps env st fName s root))"
  by (simp add: getMaps_def Let_def split: option.splits prod.splits)

lemma getMaps_other:
  "s' \<noteq> s \<Longrightarrow> snapshotsToMaps (snd (getMaps env st fName s' root)) s = snapshotsToMaps st s"
  by (simp add: getMaps_def Let_def split: option.splits prod.splits)

lemma getMaps_miss:
  assumes "snapshotsToMaps st s = None" and "getMaps env st fName s root = (b, st')"
  shows "builtFrom env s b"
    and "bundleFileName b = fName" and "bundleFile b = root"
    and "versionCounter st' = versionCounter st + 1 + int (length (forEachEmbeddeds root))"
    and "snapshotsToMaps st' = (snapshotsToMaps st)(s \<mapsto> b)"
proof -
  let ?doc = "createTextDocument env (getUriByPath (shared env) fName) ''vue''
                (versionCounter st) (snapshotText env s)"
  obtain v maps tps where
    loop: "embedLoop env root ?doc (forEachEmbeddeds root) (versionCounter st + 1) [] []
             = (v, maps, tps)"
    by (metis prod_cases3)
  from assms loop have b: "b = \<lparr>bundleFileName = fName, bundleSnapshot = s,
       bundleDocument = ?doc, bundleFile = root, bundleMaps = maps, bundleTeleports = tps\<rparr>"
    and st': "st' = st\<lparr>versionCounter := v,
                        snapshotsToMaps := (snapshotsToMaps st)(s \<mapsto> b)\<rparr>"
    by (auto simp: getMaps_def Let_def)
  note p = embedLoop_props[OF loop]
  show "builtFrom env s b"
    unfolding builtFrom_def using p by (auto simp: b)
  show "bundleFileName b = fName" "bundleFile b = root" by (simp_all add: b)
  show "versionCounter st' = versionCounter st + 1 + int (length (forEachEmbeddeds root))"
    using p by (simp add: st')
  show "snapshotsToMaps st' = (snapshotsToMaps st)(s \<mapsto> b)" by (simp add: st')
qed

lemma embedLoop_exact:
  "embedLoop env root doc fs v maps tps =
     (v + int (length fs),
      maps @ map (\<lambda>(i, f). (f, newEmbeddedDocumentSourceMap root f doc
                                 (virtualFileDocumentOf env f (v + int i)) (fileMappings f)))
               (enumerate 0 fs),
      tps @ map (\<lambda>(i, f). (f, newTeleportSourceMap f (virtualFileDocumentOf env f (v + int i))
                                (the (teleportMappings f))))
              (filter (\<lambda>(i, f). teleportMappings f \<noteq> None) (enumerate 0 fs)))"
proof (induction fs arbitrary: v maps tps)
  case Nil
  then show ?case by simp
next
  case (Cons f fs)
  show ?case
    by (cases "teleportMappings f")
      (simp_all add: Cons.IH Let_def virtualFileDocumentOf_def enumerate_Suc_eq
        filter_map split_def comp_def add.assoc)
qed

lemma getMaps_miss_exact:
  assumes "snapshotsToMaps st s = None" and "getMaps env st fName s root = (b, st')"
  shows "bundleDocument b =
           createTextDocument env (getUriByPath (shared env) fName) ''vue'' (versionCounter st)
             (snapshotText env s)"
    and "bundleMaps b =
           map (\<lambda>(i, f). (f, newEmbeddedDocumentSourceMap root f (bundleDocument b)
                                 (virtualFileDocumentOf env f (versionCounter st + 1 + int i))
                                 (fileMappings f)))
             (enumerate 0 (forEachEmbeddeds root))"
    and "bundleTeleports b =
           map (\<lambda>x. (fst x, newTeleportSourceMap (fst x) (mappedDocument (snd x))
                               (the (teleportMappings (fst x)))))
             (filter (\<lambda>x. teleportMappings (fst x) \<noteq> None) (bundleMaps b))"
proof -
  let ?doc = "createTextDocument env (getUriByPath (shared env) fName) ''vue''
                (versionCounter st) (snapshotText env s)"
  from assms have b: "b = \<lparr>bundleFileName = fName, bundleSnapshot = s,
       bundleDocument = ?doc, bundleFile = root,
       bundleMaps = fst (snd (embedLoop env root ?doc (forEachEmbeddeds root)
                                 (versionCounter st + 1) [] [])),
       bundleTeleports = snd (snd (embedLoop env root ?doc (forEachEmbeddeds root)
                                 (versionCounter st + 1) [] []))\<rparr>"
    by (auto simp: getMaps_def Let_def split: prod.splits)
  show "bundleDocument b = ?doc" by (simp add: b)
  show m: "bundleMaps b =
           map (\<lambda>(i, f). (f, newEmbeddedDocumentSourceMap root f (bundleDocument b)
                                 (virtualFileDocumentOf env f (versionCounter st + 1 + int i))
                                 (fileMappings f)))
             (enumerate 0 (forEachEmbeddeds root))"
    by (simp add: b embedLoop_exact)
  show "bundleTeleports b =
           map (\<lambda>x. (fst x, newTeleportSourceMap (fst x) (mappedDocument (snd x))
                               (the (teleportMappings (fst x)))))
             (filter (\<lambda>x. teleportMappings (fst x) \<noteq> None) (bundleMaps b))"
    unfolding m
    by (simp add: b embedLoop_exact filter_map comp_def split_def
        newEmbeddedDocumentSourceMap_def)
qed

lemma reachable_builtFrom:
  "reachable env st \<Longrightarrow> snapshotsToMaps st s = Some b \<Longrightarrow> builtFrom env s b"
proof (induction arbitrary: s b rule: reachable.induct)
  case initial
  then show ?case by (simp add: initialRegistry_def)
next
  case (lookup st fName snapshot root)
  show ?case
  proof (cases "s = snapshot")
    case True
    with lookup.prems have b: "b = fst (getMaps env st fName snapshot root)"
      by (simp add: getMaps_caches)
    show ?thesis
    proof (cases "snapshotsToMaps st snapshot")
      case None
      then show ?thesis
        using b True getMaps_miss(1)[OF None, of env fName root b
            "snd (getMaps env st fName snapshot root)"]
        by simp
    next
      case (Some b')
      then have "b = b'" using b by (simp add: getMaps_hit)
      then show ?thesis using lookup.IH Some True by simp
    qed
  next
    case False
    then show ?thesis using lookup by (simp add: getMaps_other)
  qed
qed

text \<open>The three operations of the registry lead from reachable states to reachable states.\<close>

lemma reachable_operations:
  assumes "reachable env st"
  shows "reachable env (snd (get env st u))"
    and "reachable env (snd (getMap env st u))"
    and "reachable env (snd (getTeleport env st u))"
proof -
  have step: "reachable env st'" if "getMaps env st fName s root = (b, st')" for fName s root b st'
    using reachable.lookup[OF assms, of fName s root] that by simp
  show "reachable env (snd (get env st u))"
    using assms step by (auto simp: get_def Let_def split: option.splits prod.splits)
  show "reachable env (snd (getMap env st u))"
    using assms step by (auto simp: getMap_def Let_def split: option.splits prod.splits)
  show "reachable env (snd (getTeleport env st u))"
    using assms step by (auto simp: getTeleport_def Let_def split: option.splits prod.splits)
qed

text \<open>
  Claim C6. The cache is keyed by the snapshot object. In every reachable state of the
  registry, \<open>getMaps\<close> stores the bundle it returns under the snapshot; every later lookup
  of the same snapshot, also after a lookup of another snapshot, returns the same bundle
  and leaves the state, with its version counter, as it is: nothing is built again. A
  lookup of a snapshot that is not in the cache builds the bundle for the given file name
  and root file: its document is created from the text of the snapshot at the current
  version, its maps are, for the files of the walk of the tree in order, the map of the file
  over that document and the document of the file at the next versions, its teleports are,
  for the files with teleport mappings, the teleport map over the document of the file; it
  takes one version for the document and one for each file of the tree, and changes the
  cache at that snapshot only; a lookup of a cached snapshot returns the stored
  bundle and leaves the state as it is. The bundle returned for a snapshot, as every bundle
  of the cache, is built from the text of its own snapshot, never of another one: its
  document holds that text, its maps are the maps of the files of its tree over that
  document, and its teleports those of the files with teleport mappings.
\<close>

theorem registry_cache_by_snapshot_identity:
  assumes "reachable env st" and "getMaps env st fName s root = (b, st')"
  shows "snapshotsToMaps st' s = Some b
       \<and> getMaps env st' fName' s root' = (b, st')
       \<and> (s' \<noteq> s \<longrightarrow>
            getMaps env (snd (getMaps env st' fName'' s' root'')) fName' s root'
              = (b, snd (getMaps env st' fName'' s' root'')))
       \<and> builtFrom env s b
       \<and> (\<forall>x \<in> set (bundleMaps b). sourceDocument (snd x) = bundleDocument b)
       \<and> (snapshotsToMaps st s = None \<longrightarrow>
            bundleFileName b = fName \<and> bundleFile b = root
            \<and> bundleDocument b =
                createTextDocument env (getUriByPath (shared env) fName) ''vue''
                  (versionCounter st) (snapshotText env s)
            \<and> bundleMaps b =
                map (\<lambda>(i, f). (f, newEmbeddedDocumentSourceMap root f (bundleDocument b)
                                      (virtualFileDocumentOf env f (versionCounter st + 1 + int i))
                                      (fileMappings f)))
                  (enumerate 0 (forEachEmbeddeds root))
            \<and> bundleTeleports b =
                map (\<lambda>x. (fst x, newTeleportSourceMap (fst x) (mappedDocument (snd x))
                                    (the (teleportMappings (fst x)))))
                  (filter (\<lambda>x. teleportMappings (fst x) \<noteq> None) (bundleMaps b))
            \<and> versionCounter st' = versionCounter st + 1 + int (length (forEachEmbeddeds root))
            \<and> snapshotsToMaps st' = (snapshotsToMaps st)(s \<mapsto> b))
       \<and> (snapshotsToMaps st s \<noteq> None \<longrightarrow> st' = st \<and> snapshotsToMaps st s = Some b)
       \<and> (\<forall>s2 b2. snapshotsToMaps st' s2 = Some b2 \<longrightarrow> builtFrom env s2 b2)"
proof -
  have c: "snapshotsToMaps st' s = Some b"
    using getMaps_caches[of env st fName s root] assms(2) by simp
  have r: "reachable env st'"
    using reachable.lookup[OF assms(1), of fName s root] assms(2) by simp
  have bf: "builtFrom env s b" by (rule reachable_builtFrom[OF r c])
  have src: "\<forall>x \<in> set (bundleMaps b). sourceDocument (snd x) = bundleDocument b"
    using bf unfolding builtFrom_def embeddedMapFor_def
    by (auto simp: newEmbeddedDocumentSourceMap_def)
  have miss: "snapshotsToMaps st s = None \<longrightarrow>
            bundleFileName b = fName \<and> bundleFile b = root
            \<and> bundleDocument b =
                createTextDocument env (getUriByPath (shared env) fName) ''vue''
                  (versionCounter st) (snapshotText env s)
            \<and> bundleMaps b =
                map (\<lambda>(i, f). (f, newEmbeddedDocumentSourceMap root f (bundleDocument b)
                                      (virtualFileDocumentOf env f (versionCounter st + 1 + int i))
                                      (fileMappings f)))
                  (enumerate 0 (forEachEmbeddeds root))
            \<and> bundleTeleports b =
                map (\<lambda>x. (fst x, newTeleportSourceMap (fst x) (mappedDocument (snd x))
                                    (the (teleportMappings (fst x)))))
                  (filter (\<lambda>x. teleportMappings (fst x) \<noteq> None) (bundleMaps b))
            \<and> versionCounter st' = versionCounter st + 1 + int (length (forEachEmbeddeds root))
            \<and> snapshotsToMaps st' = (snapshotsToMaps st)(s \<mapsto> b)"
    using getMaps_miss(2-5)[OF _ assms(2)] getMaps_miss_exact[OF _ assms(2)] by blast
  have hit: "snapshotsToMaps st s \<noteq> None \<longrightarrow> st' = st \<and> snapshotsToMaps st s = Some b"
    using assms(2) by (auto simp: getMaps_hit)
  have all: "\<forall>s2 b2. snapshotsToMaps st' s2 = Some b2 \<longrightarrow> builtFrom env s2 b2"
    using reachable_builtFrom[OF r] by blast
  show ?thesis
    using c bf src miss hit all by (simp add: getMaps_hit getMaps_other)
qed

theorem registry_cache_by_snapshot_identity_witness:
  "reachable emptyRegistryEnv (initialRegistry :: (nat, string) RegistryState)
   \<and> snapshotsToMaps (snd (getMaps emptyRegistryEnv initialRegistry ''/a.vue'' 0 exampleTree)) 0
      = Some (fst (getMaps emptyRegistryEnv initialRegistry ''/a.vue'' 0 exampleTree))
   \<and> getMaps emptyRegistryEnv (snd (getMaps emptyRegistryEnv initialRegistry ''/a.vue'' 0 exampleTree))
        ''/b.vue'' 0 (VirtualFile ''/b.ts'' ''y'' [] None [])
      = getMaps emptyRegistryEnv initialRegistry ''/a.vue'' 0 exampleTree
   \<and> fst (getMaps emptyRegistryEnv
        (snd (getMaps emptyRegistryEnv
                (snd (getMaps emptyRegistryEnv initialRegistry ''/a.vue'' 0 exampleTree))
                ''/c.vue'' 1 exampleFile))
        ''/b.vue'' 0 (VirtualFile ''/b.ts'' ''y'' [] None []))
      = fst (getMaps emptyRegistryEnv initialRegistry ''/a.vue'' 0 exampleTree)
   \<and> builtFrom emptyRegistryEnv 0 (fst (getMaps emptyRegistryEnv initialRegistry ''/a.vue'' 0 exampleTree))
   \<and> bundleFileName (fst (getMaps emptyRegistryEnv initialRegistry ''/a.vue'' 0 exampleTree))
      = ''/a.vue''
   \<and> bundleFile (fst (getMaps emptyRegistryEnv initialRegistry ''/a.vue'' 0 exampleTree))
      = exampleTree
   \<and> versionCounter (snd (getMaps emptyRegistryEnv initialRegistry ''/a.vue'' 0 exampleTree)) = 3
   \<and> getText (bundleDocument (fst (getMaps emptyRegistryEnv initialRegistry ''/a.vue'' 0 exampleTree)))
      = ''hello''
   \<and> version (bundleDocument (fst (getMaps emptyRegistryEnv initialRegistry ''/a.vue'' 0 exampleTree)))
      = 0
   \<and> map (\<lambda>x. (fst x, version (mappedDocument (snd x))))
        (bundleMaps (fst (getMaps emptyRegistryEnv initialRegistry ''/a.vue'' 0 exampleTree)))
      = [(exampleTree, 1), (exampleFile, 2)]
   \<and> map (\<lambda>x. (fst x, version (mappedDocument (snd x))))
        (bundleTeleports (fst (getMaps emptyRegistryEnv initialRegistry ''/a.vue'' 0 exampleTree)))
      = [(exampleTree, 1)]"
proof -
  let ?G = "getMaps emptyRegistryEnv initialRegistry ''/a.vue'' 0 exampleTree"
  let ?b = "VirtualFile ''/b.ts'' ''y'' [] None [] :: (nat, string) VirtualFile"
  let ?st = "snd (getMaps emptyRegistryEnv (snd ?G) ''/c.vue'' 1 exampleFile)"
  have a: "reachable emptyRegistryEnv (initialRegistry :: (nat, string) RegistryState)"
    by (rule reachable.initial)
  have n: "snapshotsToMaps (initialRegistry :: (nat, string) RegistryState) 0 = None"
    "versionCounter (initialRegistry :: (nat, string) RegistryState) = 0"
    by (simp_all add: initialRegistry_def)
  have w: "forEachEmbeddeds exampleTree = [exampleTree, exampleFile]"
    "teleportMappings exampleTree \<noteq> None" "teleportMappings exampleFile = None"
    by (simp_all add: exampleTree_def exampleFile_def)
  have d: "getText (createTextDocument emptyRegistryEnv u l v t) = t"
    "version (createTextDocument emptyRegistryEnv u l v t) = v"
    "snapshotText emptyRegistryEnv 0 = ''hello''" for u l v t
    by (simp_all add: emptyRegistryEnv_def lineDocument_def)
  have c: "snapshotsToMaps (snd ?G) 0 = Some (fst ?G)
      \<and> getMaps emptyRegistryEnv (snd ?G) ''/b.vue'' 0 ?b = ?G
      \<and> fst (getMaps emptyRegistryEnv ?st ''/b.vue'' 0 ?b) = fst ?G
      \<and> builtFrom emptyRegistryEnv 0 (fst ?G)
      \<and> bundleFileName (fst ?G) = ''/a.vue''
      \<and> bundleFile (fst ?G) = exampleTree
      \<and> versionCounter (snd ?G) = 3
      \<and> getText (bundleDocument (fst ?G)) = ''hello''
      \<and> version (bundleDocument (fst ?G)) = 0
      \<and> map (\<lambda>x. (fst x, version (mappedDocument (snd x)))) (bundleMaps (fst ?G))
          = [(exampleTree, 1), (exampleFile, 2)]
      \<and> map (\<lambda>x. (fst x, version (mappedDocument (snd x)))) (bundleTeleports (fst ?G))
          = [(exampleTree, 1)]"
    using registry_cache_by_snapshot_identity[OF a,
        where fName = "''/a.vue''" and s = 0 and root = exampleTree
        and b = "fst ?G" and st' = "snd ?G"
        and fName' = "''/b.vue''" and root' = ?b
        and s' = 1 and fName'' = "''/c.vue''" and root'' = exampleFile] n w
    by (simp add: d virtualFileDocumentOf_def newEmbeddedDocumentSourceMap_def
        newTeleportSourceMap_def)
  show ?thesis using a c by simp
qed

section \<open>Deduplication keeps every call-site range\<close>

lemma set_unionRanges: "set (unionRanges xs ys) = set xs \<union> set ys"
  by (simp add: unionRanges_def)

lemma distinct_unionRanges: "distinct (unionRanges xs ys)"
  by (simp add: unionRanges_def)

lemma sorted_unionRanges: "sorted (map rangeKey (unionRanges xs ys))"
  by (simp add: unionRanges_def)

lemma keys_mergeIncoming:
  "set (map incomingKey (mergeIncoming item acc)) = insert (incomingKey item) (set (map incomingKey acc))"
  by (induction acc) (auto simp: incomingKey_def)

lemma distinct_mergeIncoming:
  "distinct (map incomingKey acc) \<Longrightarrow> distinct (map incomingKey (mergeIncoming item acc))"
proof (induction acc)
  case Nil
  then show ?case by simp
next
  case (Cons kept rest)
  have "incomingKey kept \<notin> set (map incomingKey (mergeIncoming item rest))"
    if "incomingKey kept \<noteq> incomingKey item"
    using that Cons.prems by (simp only: keys_mergeIncoming) auto
  then show ?case using Cons by (auto simp: incomingKey_def)
qed

lemma rangesAt_mergeIncoming:
  "incomingRangesAt k (mergeIncoming item acc) =
     incomingRangesAt k acc \<union> (if incomingKey item = k then set (fromRanges item) else {})"
  by (induction acc) (auto simp: incomingRangesAt_def incomingKey_def set_unionRanges)

lemma foldl_mergeIncoming:
  "distinct (map incomingKey acc) \<Longrightarrow>
   distinct (map incomingKey (foldl (\<lambda>acc item. mergeIncoming item acc) acc items))
   \<and> set (map incomingKey (foldl (\<lambda>acc item. mergeIncoming item acc) acc items))
       = set (map incomingKey acc) \<union> set (map incomingKey items)
   \<and> incomingRangesAt k (foldl (\<lambda>acc item. mergeIncoming item acc) acc items)
       = incomingRangesAt k acc \<union> incomingRangesAt k items"
proof (induction items arbitrary: acc)
  case Nil
  then show ?case by (simp add: incomingRangesAt_def)
next
  case (Cons item items)
  have d: "distinct (map incomingKey (mergeIncoming item acc))"
    using Cons.prems by (rule distinct_mergeIncoming)
  have r: "incomingRangesAt k (item # items) =
      (if incomingKey item = k then set (fromRanges item) else {}) \<union> incomingRangesAt k items"
    by (auto simp: incomingRangesAt_def)
  show ?case
    using Cons.IH[OF d] by (simp only: foldl_Cons keys_mergeIncoming rangesAt_mergeIncoming r) auto
qed

lemma rangesAt_distinct:
  "distinct (map incomingKey xs) \<Longrightarrow> r \<in> set xs \<Longrightarrow>
   incomingRangesAt (incomingKey r) xs = set (fromRanges r)"
proof -
  assume d: "distinct (map incomingKey xs)" and r: "r \<in> set xs"
  have "{x \<in> set xs. incomingKey x = incomingKey r} = {r}"
    using d r by (auto simp: distinct_map inj_on_def)
  then show ?thesis by (simp add: incomingRangesAt_def)
qed

lemma incoming_dedupe:
  "distinct (map incomingKey (withCallHierarchyIncomingCalls items))
   \<and> set (map incomingKey (withCallHierarchyIncomingCalls items)) = set (map incomingKey items)
   \<and> (\<forall>r \<in> set (withCallHierarchyIncomingCalls items).
        set (fromRanges r) = incomingRangesAt (incomingKey r) items)"
proof -
  let ?res = "withCallHierarchyIncomingCalls items"
  have f: "distinct (map incomingKey ?res)"
    "set (map incomingKey ?res) = set (map incomingKey items)"
    "\<And>k. incomingRangesAt k ?res = incomingRangesAt k items"
    using foldl_mergeIncoming[of "[]" items]
    by (simp_all add: withCallHierarchyIncomingCalls_def incomingRangesAt_def)
  show ?thesis using f rangesAt_distinct[OF f(1)] by auto
qed

lemma keys_mergeOutgoing:
  "set (map outgoingKey (mergeOutgoing item acc)) = insert (outgoingKey item) (set (map outgoingKey acc))"
  by (induction acc) (auto simp: outgoingKey_def)

lemma distinct_mergeOutgoing:
  "distinct (map outgoingKey acc) \<Longrightarrow> distinct (map outgoingKey (mergeOutgoing item acc))"
proof (induction acc)
  case Nil
  then show ?case by simp
next
  case (Cons kept rest)
  have "outgoingKey kept \<notin> set (map outgoingKey (mergeOutgoing item rest))"
    if "outgoingKey kept \<noteq> outgoingKey item"
    using that Cons.prems by (simp only: keys_mergeOutgoing) auto
  then show ?case using Cons by (auto simp: outgoingKey_def)
qed

lemma rangesAt_mergeOutgoing:
  "outgoingRangesAt k (mergeOutgoing item acc) =
     outgoingRangesAt k acc \<union> (if outgoingKey item = k then set (fromRanges' item) else {})"
  by (induction acc) (auto simp: outgoingRangesAt_def outgoingKey_def set_unionRanges)

lemma foldl_mergeOutgoing:
  "distinct (map outgoingKey acc) \<Longrightarrow>
   distinct (map outgoingKey (foldl (\<lambda>acc item. mergeOutgoing item acc) acc items))
   \<and> set (map outgoingKey (foldl (\<lambda>acc item. mergeOutgoing item acc) acc items))
       = set (map outgoingKey acc) \<union> set (map outgoingKey items)
   \<and> outgoingRangesAt k (foldl (\<lambda>acc item. mergeOutgoing item acc) acc items)
       = outgoingRangesAt k acc \<union> outgoingRangesAt k items"
proof (induction items arbitrary: acc)
  case Nil
  then show ?case by (simp add: outgoingRangesAt_def)
next
  case (Cons item items)
  have d: "distinct (map outgoingKey (mergeOutgoing item acc))"
    using Cons.prems by (rule distinct_mergeOutgoing)
  have r: "outgoingRangesAt k (item # items) =
      (if outgoingKey item = k then set (fromRanges' item) else {}) \<union> outgoingRangesAt k items"
    by (auto simp: outgoingRangesAt_def)
  show ?case
    using Cons.IH[OF d] by (simp only: foldl_Cons keys_mergeOutgoing rangesAt_mergeOutgoing r) auto
qed

lemma outgoingRangesAt_distinct:
  "distinct (map outgoingKey xs) \<Longrightarrow> r \<in> set xs \<Longrightarrow>
   outgoingRangesAt (outgoingKey r) xs = set (fromRanges' r)"
proof -
  assume d: "distinct (map outgoingKey xs)" and r: "r \<in> set xs"
  have "{x \<in> set xs. outgoingKey x = outgoingKey r} = {r}"
    using d r by (auto simp: distinct_map inj_on_def)
  then show ?thesis by (simp add: outgoingRangesAt_def)
qed

lemma outgoing_dedupe:
  "distinct (map outgoingKey (withCallHierarchyOutgoingCalls items))
   \<and> set (map outgoingKey (withCallHierarchyOutgoingCalls items)) = set (map outgoingKey items)
   \<and> (\<forall>r \<in> set (withCallHierarchyOutgoingCalls items).
        set (fromRanges' r) = outgoingRangesAt (outgoingKey r) items)"
proof -
  let ?res = "withCallHierarchyOutgoingCalls items"
  have f: "distinct (map outgoingKey ?res)"
    "set (map outgoingKey ?res) = set (map outgoingKey items)"
    "\<And>k. outgoingRangesAt k ?res = outgoingRangesAt k items"
    using foldl_mergeOutgoing[of "[]" items]
    by (simp_all add: withCallHierarchyOutgoingCalls_def outgoingRangesAt_def)
  show ?thesis using f outgoingRangesAt_distinct[OF f(1)] by auto
qed

text \<open>
  Claim C7. In the result of \<open>withCallHierarchyIncomingCalls\<close> and of
  \<open>withCallHierarchyOutgoingCalls\<close> no two items have location-equal nested items; every
  input item has a result item of its location whose call-site ranges include its own; the
  call-site ranges of a result item are exactly those of the input items of its location;
  two location-equal items are merged into the first with the union of the two range
  lists, which holds the ranges of both lists, each once, in source order.
\<close>

theorem call_hierarchy_dedupe_unions_ranges:
  "distinct (map incomingKey (withCallHierarchyIncomingCalls ins))
   \<and> (\<forall>x \<in> set ins. \<exists>r \<in> set (withCallHierarchyIncomingCalls ins).
         incomingKey r = incomingKey x \<and> set (fromRanges x) \<subseteq> set (fromRanges r))
   \<and> (\<forall>r \<in> set (withCallHierarchyIncomingCalls ins).
         set (fromRanges r) = incomingRangesAt (incomingKey r) ins)
   \<and> (incomingKey a = incomingKey b \<longrightarrow>
         withCallHierarchyIncomingCalls [a, b]
           = [a\<lparr>fromRanges := unionRanges (fromRanges a) (fromRanges b)\<rparr>])
   \<and> distinct (map outgoingKey (withCallHierarchyOutgoingCalls outs))
   \<and> (\<forall>x \<in> set outs. \<exists>r \<in> set (withCallHierarchyOutgoingCalls outs).
         outgoingKey r = outgoingKey x \<and> set (fromRanges' x) \<subseteq> set (fromRanges' r))
   \<and> (\<forall>r \<in> set (withCallHierarchyOutgoingCalls outs).
         set (fromRanges' r) = outgoingRangesAt (outgoingKey r) outs)
   \<and> (outgoingKey c = outgoingKey d \<longrightarrow>
         withCallHierarchyOutgoingCalls [c, d]
           = [c\<lparr>fromRanges' := unionRanges (fromRanges' c) (fromRanges' d)\<rparr>])
   \<and> set (unionRanges xs ys) = set xs \<union> set ys
   \<and> sorted (map rangeKey (unionRanges xs ys))
   \<and> distinct (unionRanges xs ys)"
proof -
  have i: "\<exists>r \<in> set (withCallHierarchyIncomingCalls ins).
         incomingKey r = incomingKey x \<and> set (fromRanges x) \<subseteq> set (fromRanges r)"
    if x: "x \<in> set ins" for x
  proof -
    from x have "incomingKey x \<in> set (map incomingKey (withCallHierarchyIncomingCalls ins))"
      using incoming_dedupe[of ins] by simp
    then obtain r where r: "r \<in> set (withCallHierarchyIncomingCalls ins)"
      and k: "incomingKey r = incomingKey x" by auto
    have "set (fromRanges r) = incomingRangesAt (incomingKey r) ins"
      using incoming_dedupe[of ins] r by blast
    then have "set (fromRanges x) \<subseteq> set (fromRanges r)"
      using x k by (auto simp: incomingRangesAt_def)
    then show ?thesis using r k by blast
  qed
  have o: "\<exists>r \<in> set (withCallHierarchyOutgoingCalls outs).
         outgoingKey r = outgoingKey x \<and> set (fromRanges' x) \<subseteq> set (fromRanges' r)"
    if x: "x \<in> set outs" for x
  proof -
    from x have "outgoingKey x \<in> set (map outgoingKey (withCallHierarchyOutgoingCalls outs))"
      using outgoing_dedupe[of outs] by simp
    then obtain r where r: "r \<in> set (withCallHierarchyOutgoingCalls outs)"
      and k: "outgoingKey r = outgoingKey x" by auto
    have "set (fromRanges' r) = outgoingRangesAt (outgoingKey r) outs"
      using outgoing_dedupe[of outs] r by blast
    then have "set (fromRanges' x) \<subseteq> set (fromRanges' r)"
      using x k by (auto simp: outgoingRangesAt_def)
    then show ?thesis using r k by blast
  qed
  have two: "incomingKey a = incomingKey b \<longrightarrow>
         withCallHierarchyIncomingCalls [a, b]
           = [a\<lparr>fromRanges := unionRanges (fromRanges a) (fromRanges b)\<rparr>]"
    "outgoingKey c = outgoingKey d \<longrightarrow>
         withCallHierarchyOutgoingCalls [c, d]
           = [c\<lparr>fromRanges' := unionRanges (fromRanges' c) (fromRanges' d)\<rparr>]"
    by (simp_all add: withCallHierarchyIncomingCalls_def withCallHierarchyOutgoingCalls_def
        incomingKey_def outgoingKey_def)
  show ?thesis
    using incoming_dedupe[of ins] outgoing_dedupe[of outs] i o two
    by (simp add: set_unionRanges sorted_unionRanges distinct_unionRanges)
qed

theorem call_hierarchy_dedupe_unions_ranges_witness:
  "withCallHierarchyIncomingCalls
     [\<lparr>from' = exampleCaller, fromRanges = [exampleRange 7 9, exampleRange 2 4]\<rparr>,
      \<lparr>from' = exampleCaller, fromRanges = [exampleRange 2 4, exampleRange 5 6]\<rparr>]
   = [\<lparr>from' = exampleCaller,
       fromRanges = [exampleRange 2 4, exampleRange 5 6, exampleRange 7 9]\<rparr>]
   \<and> withCallHierarchyOutgoingCalls
     [\<lparr>to' = exampleCaller, fromRanges' = [exampleRange 7 9, exampleRange 2 4]\<rparr>,
      \<lparr>to' = exampleCaller, fromRanges' = [exampleRange 2 4, exampleRange 5 6]\<rparr>]
   = [\<lparr>to' = exampleCaller,
       fromRanges' = [exampleRange 2 4, exampleRange 5 6, exampleRange 7 9]\<rparr>]"
proof -
  have u: "unionRanges [exampleRange 7 9, exampleRange 2 4] [exampleRange 2 4, exampleRange 5 6]
      = [exampleRange 2 4, exampleRange 5 6, exampleRange 7 9]"
    by (simp add: unionRanges_def exampleRange_def rangeKey_def)
  show ?thesis
    using call_hierarchy_dedupe_unions_ranges[where a = "\<lparr>from' = exampleCaller, fromRanges = [exampleRange 7 9, exampleRange 2 4]\<rparr>"
        and b = "\<lparr>from' = exampleCaller, fromRanges = [exampleRange 2 4, exampleRange 5 6]\<rparr>"
        and c = "\<lparr>to' = exampleCaller, fromRanges' = [exampleRange 7 9, exampleRange 2 4]\<rparr>"
        and d = "\<lparr>to' = exampleCaller, fromRanges' = [exampleRange 2 4, exampleRange 5 6]\<rparr>"
        and ins = "[\<lparr>from' = exampleCaller, fromRanges = [exampleRange 7 9, exampleRange 2 4]\<rparr>,
                    \<lparr>from' = exampleCaller, fromRanges = [exampleRange 2 4, exampleRange 5 6]\<rparr>]"
        and outs = "[\<lparr>to' = exampleCaller, fromRanges' = [exampleRange 7 9, exampleRange 2 4]\<rparr>,
                     \<lparr>to' = exampleCaller, fromRanges' = [exampleRange 2 4, exampleRange 5 6]\<rparr>]"
        and xs = "[exampleRange 7 9, exampleRange 2 4]"
        and ys = "[exampleRange 2 4, exampleRange 5 6]"]
    by (simp add: incomingKey_def outgoingKey_def u)
qed

end
